theory Spec2Isabelle
  imports Complex_Main "HOL-Library.Monad_Syntax"
begin

section \<open>Garmin Connect adapter: data model\<close>

text \<open>
  The adapter \<^verbatim>\<open>GarminConnectService\<close> (garminconnect.py) is embedded function by
  function. Exceptions are values of the type \<open>error\<close>; a function that can raise returns
  \<open>error + 'a\<close> with \<open>Inl\<close> for the exception. The two \<^verbatim>\<open>while\<close> loops of the
  source have no bound of their own, so they are partial functions into \<open>option\<close>, where
  \<open>None\<close> stands for a run that never returns.
\<close>

datatype ActivityType =
    Running | Cycling | MountainBiking | Walking | Hiking | DownhillSkiing
  | CrossCountrySkiing | Skating | Swimming | Rowing | Elliptical | Other
  | HostType string  \<comment> \<open>any member of the host's enumeration this adapter does not name\<close>

datatype error =
    ValueError string
  | KeyError string
  | ZeroDivisionError
  | OverflowError string
  | TypeError string
  | APIException string bool  \<comment> \<open>message, \<^verbatim>\<open>block\<close> with \<^verbatim>\<open>intervention_required\<close>\<close>
  | APIWarning string
  | APIExcludeActivity string "nat option"  \<comment> \<open>message, \<^verbatim>\<open>activityId\<close>\<close>

subsection \<open>Activity-type tables\<close>

definition activityMappings :: "(string \<times> ActivityType) list" where
  "activityMappings =
    [(''running'', Running),
     (''cycling'', Cycling),
     (''mountain_biking'', MountainBiking),
     (''walking'', Walking),
     (''hiking'', Hiking),
     (''resort_skiing_snowboarding'', DownhillSkiing),
     (''cross_country_skiing'', CrossCountrySkiing),
     (''backcountry_skiing_snowboarding'', CrossCountrySkiing),
     (''skating'', Skating),
     (''swimming'', Swimming),
     (''rowing'', Rowing),
     (''elliptical'', Elliptical),
     (''all'', Other)]"

definition reverseActivityMappings :: "(string \<times> ActivityType) list" where
  "reverseActivityMappings =
    [(''running'', Running),
     (''cycling'', Cycling),
     (''mountain_biking'', MountainBiking),
     (''walking'', Walking),
     (''hiking'', Hiking),
     (''resort_skiing_snowboarding'', DownhillSkiing),
     (''cross_country_skiing'', CrossCountrySkiing),
     (''skating'', Skating),
     (''swimming'', Swimming),
     (''rowing'', Rowing),
     (''elliptical'', Elliptical),
     (''other'', Other)]"

subsection \<open>Type resolution\<close>

text \<open>
  One entry of \<^verbatim>\<open>self._activityHierarchy\<close>: its key and the key of its parent. A root
  of the forest has no parent, and reading \<^verbatim>\<open>x["parent"]["key"]\<close> of such an entry
  raises \<^verbatim>\<open>KeyError\<close>.
\<close>

record hentry =
  h_key :: string
  h_parent :: "string option"

text \<open>
  The comprehension \<^verbatim>\<open>[x["parent"]["key"] for x in self._activityHierarchy if x["key"] == act_type]\<close>.
\<close>

fun parent_keys :: "hentry list \<Rightarrow> string \<Rightarrow> error + string list" where
  "parent_keys [] act_type = Inr []"
| "parent_keys (x # xs) act_type =
     (if h_key x = act_type then
        (case h_parent x of
           None \<Rightarrow> Inl (KeyError ''parent'')
         | Some p \<Rightarrow>
             (case parent_keys xs act_type of
                Inl e \<Rightarrow> Inl e
              | Inr ps \<Rightarrow> Inr (p # ps)))
      else parent_keys xs act_type)"

text \<open>
  \<^verbatim>\<open>_resolveActivityType\<close>: the loop runs while the key is not in
  \<^verbatim>\<open>_activityMappings\<close>; the \<^verbatim>\<open>IndexError\<close> of \<^verbatim>\<open>[...][0]\<close> on an empty
  comprehension is turned into \<^verbatim>\<open>ValueError\<close>. Nothing counts the iterations.
\<close>

partial_function (option) resolveActivityType ::
  "hentry list \<Rightarrow> string \<Rightarrow> (error + ActivityType) option" where
  "resolveActivityType hier act_type =
     (case map_of activityMappings act_type of
        Some t \<Rightarrow> Some (Inr t)
      | None \<Rightarrow>
          (case parent_keys hier act_type of
             Inl e \<Rightarrow> Some (Inl e)
           | Inr [] \<Rightarrow> Some (Inl (ValueError ''Activity type not found in activity hierarchy''))
           | Inr (p # ps) \<Rightarrow> resolveActivityType hier p))"

declare resolveActivityType.simps [code]

text \<open>The parent edges of a hierarchy, child to parent, as pairs (parent, child).\<close>

definition parent_edges :: "hentry list \<Rightarrow> (string \<times> string) set" where
  "parent_edges hier = {(p, k). \<lparr>h_key = k, h_parent = Some p\<rparr> \<in> set hier}"

text \<open>
  The same loop, given up after \<open>n\<close> evaluations of its condition: a measure of how many
  steps a resolution takes.
\<close>

fun resolve_within :: "nat \<Rightarrow> hentry list \<Rightarrow> string \<Rightarrow> (error + ActivityType) option" where
  "resolve_within 0 hier act_type = None"
| "resolve_within (Suc n) hier act_type =
     (case map_of activityMappings act_type of
        Some t \<Rightarrow> Some (Inr t)
      | None \<Rightarrow>
          (case parent_keys hier act_type of
             Inl e \<Rightarrow> Some (Inl e)
           | Inr [] \<Rightarrow> Some (Inl (ValueError ''Activity type not found in activity hierarchy''))
           | Inr (p # ps) \<Rightarrow> resolve_within n hier p))"

text \<open>The keys above a key in the hierarchy.\<close>

definition ancestors :: "hentry list \<Rightarrow> string \<Rightarrow> string set" where
  "ancestors hier t = {p. (p, t) \<in> (parent_edges hier)\<^sup>+}"


section \<open>Listing normalizer\<close>

subsection \<open>Python floats\<close>

text \<open>
  A Python \<^verbatim>\<open>float\<close>: a finite value, the two infinities or not-a-number. Finite
  values are real numbers here; rounding to 53 bits and the sign of zero are not part of
  the model. \<^verbatim>\<open>float(s)\<close> of the listing's numeric strings is read as already done:
  a numeric field of a raw record holds the float its text denotes.
\<close>

datatype pyfloat = Fin real | PInf | NInf | NaN

definition isinf :: "pyfloat \<Rightarrow> bool" where
  "isinf x = (x = PInf \<or> x = NInf)"

text \<open>\<^verbatim>\<open>bool(x)\<close>: every float but zero is true, not-a-number included.\<close>

definition float_truthy :: "pyfloat \<Rightarrow> bool" where
  "float_truthy x = (x \<noteq> Fin 0)"

text \<open>\<^verbatim>\<open>if stat:\<close> on a facet that is \<^verbatim>\<open>None\<close> or a float.\<close>

definition facet_truthy :: "pyfloat option \<Rightarrow> bool" where
  "facet_truthy v = (case v of None \<Rightarrow> False | Some x \<Rightarrow> float_truthy x)"

text \<open>\<^verbatim>\<open>60 / x\<close>: true division of a finite number by a float.\<close>

fun py_truediv :: "real \<Rightarrow> pyfloat \<Rightarrow> error + pyfloat" where
  "py_truediv a (Fin b) = (if b = 0 then Inl ZeroDivisionError else Inr (Fin (a / b)))"
| "py_truediv a PInf = Inr (Fin 0)"
| "py_truediv a NInf = Inr (Fin 0)"
| "py_truediv a NaN = Inr NaN"

text \<open>\<^verbatim>\<open>x *= 2\<close>.\<close>

fun py_double :: "pyfloat \<Rightarrow> pyfloat" where
  "py_double (Fin a) = Fin (a * 2)"
| "py_double PInf = PInf"
| "py_double NInf = NInf"
| "py_double NaN = NaN"

text \<open>\<^verbatim>\<open>x > y\<close>: false as soon as one side is not-a-number.\<close>

fun py_gt :: "pyfloat \<Rightarrow> pyfloat \<Rightarrow> bool" where
  "py_gt (Fin a) (Fin b) = (a > b)"
| "py_gt NaN y = False"
| "py_gt x NaN = False"
| "py_gt PInf y = (y \<noteq> PInf)"
| "py_gt x NInf = (x \<noteq> NInf)"
| "py_gt x PInf = False"
| "py_gt NInf y = False"

text \<open>
  \<^verbatim>\<open>round(x)\<close> of Python 3 rounds a half to the even neighbour and raises on an
  infinity or not-a-number.
\<close>

definition round_half_even :: "real \<Rightarrow> int" where
  "round_half_even r =
     (let f = \<lfloor>r\<rfloor>; d = r - of_int f
      in if d < 1 / 2 then f else if d > 1 / 2 then f + 1 else if even f then f else f + 1)"

fun py_round :: "pyfloat \<Rightarrow> error + int" where
  "py_round (Fin r) = Inr (round_half_even r)"
| "py_round NaN = Inl (ValueError ''cannot convert float NaN to integer'')"
| "py_round x = Inl (OverflowError ''cannot convert float infinity to integer'')"

text \<open>
  \<^verbatim>\<open>timedelta(seconds=x)\<close> and \<^verbatim>\<open>datetime.utcfromtimestamp(x)\<close>: a duration
  and an instant, both in seconds; the calendar's range limits are left out.
\<close>

fun finite_seconds :: "pyfloat \<Rightarrow> error + real" where
  "finite_seconds (Fin r) = Inr r"
| "finite_seconds NaN = Inl (ValueError ''cannot convert float NaN to integer'')"
| "finite_seconds x = Inl (OverflowError ''cannot convert float infinity to integer'')"

text \<open>\<^verbatim>\<open>x / 1000\<close> and \<^verbatim>\<open>x * 60\<close> on a float.\<close>

fun py_scale :: "real \<Rightarrow> pyfloat \<Rightarrow> pyfloat" where
  "py_scale c (Fin a) = Fin (a * c)"
| "py_scale c x = x"

subsection \<open>Units and statistics\<close>

datatype ActivityStatisticUnit =
    MilesPerHour | KilometersPerHour | HectometersPerHour | HundredYardsPerHour
  | DegreesCelcius | DegreesFahrenheit
  | Miles | Kilometers | Feet | Meters | Yards
  | Kilocalories | BeatsPerMinute | StepsPerMinute | RevolutionsPerMinute | Watts
  | Time

definition unitMap :: "(string \<times> ActivityStatisticUnit) list" where
  "unitMap =
    [(''mph'', MilesPerHour),
     (''kph'', KilometersPerHour),
     (''hmph'', HectometersPerHour),
     (''hydph'', HundredYardsPerHour),
     (''celcius'', DegreesCelcius),
     (''fahrenheit'', DegreesFahrenheit),
     (''mile'', Miles),
     (''kilometer'', Kilometers),
     (''foot'', Feet),
     (''meter'', Meters),
     (''yard'', Yards),
     (''kilocalorie'', Kilocalories),
     (''bpm'', BeatsPerMinute),
     (''stepsPerMinute'', StepsPerMinute),
     (''rpm'', RevolutionsPerMinute),
     (''watt'', Watts)]"

text \<open>
  Modelled from the spec: the host's \<^verbatim>\<open>ActivityStatistic\<close> (interchange.py is not
  among the sources): a unit tag and the optional facets value, max, min, average, gain
  and loss. A duration statistic holds its seconds in the value facet.
\<close>

record ActivityStatistic =
  s_Units :: ActivityStatisticUnit
  s_Value :: "pyfloat option"
  s_Max :: "pyfloat option"
  s_Min :: "pyfloat option"
  s_Average :: "pyfloat option"
  s_Gain :: "pyfloat option"
  s_Loss :: "pyfloat option"

text \<open>The keyword of the constructor that \<^verbatim>\<open>mapStat\<close> passes as \<^verbatim>\<open>type\<close>.\<close>

datatype facet = F_value | F_max | F_min | F_avg | F_gain | F_loss

text \<open>
  Modelled from the spec: the constructor call \<^verbatim>\<open>ActivityStatistic(units, **{type: value})\<close>,
  a statistic with the one facet set.
\<close>

definition new_stat :: "ActivityStatisticUnit \<Rightarrow> facet \<Rightarrow> pyfloat \<Rightarrow> ActivityStatistic" where
  "new_stat u f v =
     \<lparr>s_Units = u,
      s_Value = (if f = F_value then Some v else None),
      s_Max = (if f = F_max then Some v else None),
      s_Min = (if f = F_min then Some v else None),
      s_Average = (if f = F_avg then Some v else None),
      s_Gain = (if f = F_gain then Some v else None),
      s_Loss = (if f = F_loss then Some v else None)\<rparr>"

text \<open>The attributes of \<^verbatim>\<open>activity.Stats\<close> that the adapter reads or writes.\<close>

datatype statKey =
    Distance | MovingTime | Speed | Temperature | Energy | HR | RunCadence | Cadence
  | Power | Elevation

type_synonym ActivityStatistics = "statKey \<Rightarrow> ActivityStatistic"

subsection \<open>Activities\<close>

datatype tzinfo = NamedTZ string | FixedOffset pyfloat

text \<open>
  Modelled from the spec: the host's \<^verbatim>\<open>Lap\<close>, of which the adapter touches the
  statistics only.
\<close>

record Lap =
  l_Stats :: ActivityStatistics
  l_payload :: string  \<comment> \<open>whatever else the parser stored in the lap\<close>

text \<open>
  Modelled from the spec: the host's \<^verbatim>\<open>UploadedActivity\<close>, with the attributes the
  adapter touches. Instants are seconds since the epoch.
\<close>

record Activity =
  Stationary :: "bool option"
  TZ :: "tzinfo option"
  Name :: "string option"
  Notes :: "string option"
  StartTime :: "real option"
  EndTime :: "real option"
  Stats :: ActivityStatistics
  Type :: ActivityType
  UID :: "string option"
  ServiceData :: "nat option"  \<comment> \<open>the value under \<^verbatim>\<open>"ActivityID"\<close>\<close>
  Laps :: "Lap list"


subsection \<open>Raw listing records\<close>

text \<open>
  One summary field of a listing record, such as \<^verbatim>\<open>act["maxSpeed"]\<close>: the float of
  its \<^verbatim>\<open>"value"\<close>, its \<^verbatim>\<open>"uom"\<close> and its display text \<^verbatim>\<open>"withUnitAbbr"\<close>.
\<close>

record gcfield =
  f_value :: pyfloat
  f_uom :: string
  f_withUnitAbbr :: string

text \<open>
  A coordinate field is compared with \<^verbatim>\<open>is\<close>, so the object matters and not only
  what it holds: \<open>c_addr\<close> is the identity of the object the JSON parser built for it.
\<close>

record coord =
  c_addr :: nat
  c_value :: pyfloat

text \<open>
  The dictionary \<^verbatim>\<open>act\<close>. A key the source tests with \<^verbatim>\<open>in\<close>, or reads on some
  paths only, is optional; a key it always indexes is a plain field. The summary fields
  are kept by key in \<open>measures\<close>, as \<^verbatim>\<open>mapStat\<close> looks them up by key.
\<close>

record raw_activity =
  activityId :: nat
  measures :: "string \<Rightarrow> gcfield option"
  beginLatitude :: "coord option"
  endLatitude :: "coord option"
  beginLongitude :: "coord option"
  endLongitude :: "coord option"
  activityTimeZone_key :: string
  activityTimeZone_offset :: pyfloat
  activityName_value :: string
  beginTimestamp_millis :: pyfloat
  sumDuration_minutesSeconds :: "(pyfloat \<times> pyfloat) option"
  endTimestamp_millis :: "pyfloat option"
  activityType_key :: string

subsection \<open>The host's part\<close>

text \<open>
  What the adapter calls and the sources do not hold is a parameter of the model: the
  activity a fresh \<^verbatim>\<open>UploadedActivity()\<close> is, the time zones \<^verbatim>\<open>pytz\<close> knows,
  the methods of the host's activity and statistic classes, the two file codecs and the
  credential store. Each method is a function of the objects it is given, and may raise.
\<close>

record host =
  UploadedActivity :: Activity
  timezone_known :: "string \<Rightarrow> bool"
  AdjustTZ :: "Activity \<Rightarrow> error + Activity"
  stat_update :: "ActivityStatistic \<Rightarrow> ActivityStatistic \<Rightarrow> error + ActivityStatistic"
  asUnits :: "ActivityStatistic \<Rightarrow> ActivityStatisticUnit \<Rightarrow> error + ActivityStatistic"
  CalculateUID :: "Activity \<Rightarrow> error + Activity"
  stats_update :: "ActivityStatistics \<Rightarrow> ActivityStatistics \<Rightarrow> error + ActivityStatistics"
  TCXIO_Parse :: "string \<Rightarrow> Activity \<Rightarrow> error + Activity"
  EnsureTZ :: "Activity \<Rightarrow> error + Activity"
  FITIO_Dump :: "Activity \<Rightarrow> error + string"
  Decrypt :: "string \<Rightarrow> string"

text \<open>Sequencing of statements that may raise.\<close>

definition and_then :: "error + 'a \<Rightarrow> ('a \<Rightarrow> error + 'b) \<Rightarrow> error + 'b" where
  "and_then m f = (case m of Inl e \<Rightarrow> Inl e | Inr x \<Rightarrow> f x)"

subsection \<open>Normalizing one record\<close>

text \<open>
  Line 145, the test that decides \<^verbatim>\<open>activity.Stationary\<close>. The longitudes are read
  only when both latitudes are there and are one object; a missing one then raises.
\<close>

definition stationary_test :: "raw_activity \<Rightarrow> error + bool" where
  "stationary_test act =
     (case beginLatitude act of
        None \<Rightarrow> Inr True
      | Some blat \<Rightarrow>
          (case endLatitude act of
             None \<Rightarrow> Inr True
           | Some elat \<Rightarrow>
               if c_addr blat = c_addr elat then
                 (case beginLongitude act of
                    None \<Rightarrow> Inl (KeyError ''beginLongitude'')
                  | Some blon \<Rightarrow>
                      (case endLongitude act of
                         None \<Rightarrow> Inl (KeyError ''endLongitude'')
                       | Some elon \<Rightarrow> Inr (c_addr blon = c_addr elon)))
               else Inr False))"

definition set_Stationary :: "raw_activity \<Rightarrow> Activity \<Rightarrow> error + Activity" where
  "set_Stationary act activity =
     and_then (stationary_test act) (\<lambda>b. Inr (activity\<lparr>Stationary := Some b\<rparr>))"

text \<open>
  \<^verbatim>\<open>pytz.FixedOffset(minutes)\<close>: an offset of a day or more, either way, raises
  \<^verbatim>\<open>ValueError\<close>, and so does one that is not a number.
\<close>

fun FixedOffset_of :: "pyfloat \<Rightarrow> error + tzinfo" where
  "FixedOffset_of (Fin m) =
     (if \<bar>m\<bar> \<ge> 1440 then Inl (ValueError ''absolute offset is too large'')
      else Inr (FixedOffset (Fin m)))"
| "FixedOffset_of NaN = Inl (ValueError ''cannot convert float NaN to integer'')"
| "FixedOffset_of x = Inl (ValueError ''absolute offset is too large'')"

text \<open>Lines 150 to 153: a zone name \<^verbatim>\<open>pytz\<close> does not know falls back to the offset.\<close>

definition set_TZ :: "host \<Rightarrow> raw_activity \<Rightarrow> Activity \<Rightarrow> error + Activity" where
  "set_TZ h act activity =
     (if timezone_known h (activityTimeZone_key act)
      then Inr (activity\<lparr>TZ := Some (NamedTZ (activityTimeZone_key act))\<rparr>)
      else and_then (FixedOffset_of (py_scale 60 (activityTimeZone_offset act))) (\<lambda>tz.
             Inr (activity\<lparr>TZ := Some tz\<rparr>)))"

text \<open>
  A Python string is held as its UTF-8 bytes. \<open>py_blank s\<close> says that \<^verbatim>\<open>s.strip()\<close>
  is empty, that is, that \<open>s\<close> consists of white space only: the code points 9 to 13, 28
  to 32, U+0085, U+00A0, U+1680, U+2000 to U+200A, U+2028, U+2029, U+202F, U+205F and U+3000.
\<close>

definition ascii_space :: "char \<Rightarrow> bool" where
  "ascii_space c = (of_char c \<in> {9, 10, 11, 12, 13, 28, 29, 30, 31, 32 :: nat})"

fun py_blank :: "string \<Rightarrow> bool" where
  "py_blank [] = True"
| "py_blank (c # cs) =
     (if ascii_space c then py_blank cs
      else if of_char c = (194 :: nat) then
        (case cs of
           d # ds \<Rightarrow> of_char d \<in> {133, 160 :: nat} \<and> py_blank ds
         | _ \<Rightarrow> False)
      else if of_char c = (225 :: nat) then
        (case cs of
           d # e # es \<Rightarrow> of_char d = (154 :: nat) \<and> of_char e = (128 :: nat) \<and> py_blank es
         | _ \<Rightarrow> False)
      else if of_char c = (226 :: nat) then
        (case cs of
           d # e # es \<Rightarrow>
             ((of_char d = (128 :: nat)
                 \<and> ((128 :: nat) \<le> of_char e \<and> of_char e \<le> (138 :: nat)
                      \<or> of_char e \<in> {168, 169, 175 :: nat}))
              \<or> (of_char d = (129 :: nat) \<and> of_char e = (159 :: nat)))
             \<and> py_blank es
         | _ \<Rightarrow> False)
      else if of_char c = (227 :: nat) then
        (case cs of
           d # e # es \<Rightarrow> of_char d = (128 :: nat) \<and> of_char e = (128 :: nat) \<and> py_blank es
         | _ \<Rightarrow> False)
      else False)"

text \<open>Lines 156 and 157.\<close>

definition set_Name :: "raw_activity \<Rightarrow> Activity \<Rightarrow> Activity" where
  "set_Name act activity =
     (if \<not> py_blank (activityName_value act) \<and> activityName_value act \<noteq> ''Untitled''
      then activity\<lparr>Name := Some (activityName_value act)\<rparr>
      else activity)"

text \<open>Lines 159 to 165: the start instant, then the end from the first source there is.\<close>

definition set_times :: "raw_activity \<Rightarrow> Activity \<Rightarrow> error + Activity" where
  "set_times act activity =
     and_then (finite_seconds (py_scale (1 / 1000) (beginTimestamp_millis act))) (\<lambda>start.
       case measures act ''sumElapsedDuration'' of
         Some f \<Rightarrow>
           and_then (py_round (f_value f)) (\<lambda>n.
             Inr (activity\<lparr>StartTime := Some start, EndTime := Some (start + of_int n)\<rparr>))
       | None \<Rightarrow>
           (case sumDuration_minutesSeconds act of
              Some (m, s) \<Rightarrow>
                and_then (finite_seconds m) (\<lambda>mins.
                  and_then (finite_seconds s) (\<lambda>secs.
                    Inr (activity\<lparr>StartTime := Some start,
                                    EndTime := Some (start + mins * 60 + secs)\<rparr>)))
            | None \<Rightarrow>
                (case endTimestamp_millis act of
                   None \<Rightarrow> Inl (KeyError ''endTimestamp'')
                 | Some ms \<Rightarrow>
                     and_then (finite_seconds (py_scale (1 / 1000) ms)) (\<lambda>stop.
                       Inr (activity\<lparr>StartTime := Some start, EndTime := Some stop\<rparr>)))))"

text \<open>\<^verbatim>\<open>self._unitMap[uom]\<close>.\<close>

definition unit_of :: "string \<Rightarrow> error + ActivityStatisticUnit" where
  "unit_of uom = (case map_of unitMap uom of None \<Rightarrow> Inl (KeyError uom) | Some u \<Rightarrow> Inr u)"

text \<open>Line 169. The caller has checked that \<^verbatim>\<open>"sumDistance"\<close> is there.\<close>

definition set_Distance :: "raw_activity \<Rightarrow> Activity \<Rightarrow> error + Activity" where
  "set_Distance act activity =
     (case measures act ''sumDistance'' of
        None \<Rightarrow> Inl (KeyError ''sumDistance'')
      | Some f \<Rightarrow>
          and_then (unit_of (f_uom f)) (\<lambda>u.
            Inr (activity\<lparr>Stats := (Stats activity)(Distance := new_stat u F_value (f_value f))\<rparr>)))"

text \<open>Lines 182 and 183.\<close>

definition set_MovingTime :: "raw_activity \<Rightarrow> Activity \<Rightarrow> error + Activity" where
  "set_MovingTime act activity =
     (case measures act ''sumMovingDuration'' of
        None \<Rightarrow> Inr activity
      | Some f \<Rightarrow>
          and_then (finite_seconds (f_value f)) (\<lambda>secs.
            Inr (activity\<lparr>Stats := (Stats activity)(MovingTime := new_stat Time F_value (Fin secs))\<rparr>)))"

text \<open>
  The local function \<^verbatim>\<open>mapStat\<close>: nothing for an absent field or an infinite value;
  otherwise the statistic is updated in place and, with \<^verbatim>\<open>useSourceUnits\<close>, replaced
  by itself in the field's own units.
\<close>

definition mapStat ::
  "host \<Rightarrow> raw_activity \<Rightarrow> string \<Rightarrow> statKey \<Rightarrow> facet \<Rightarrow> bool \<Rightarrow> Activity \<Rightarrow> error + Activity" where
  "mapStat h act gcKey statKey type useSourceUnits activity =
     (case measures act gcKey of
        None \<Rightarrow> Inr activity
      | Some f \<Rightarrow>
          if isinf (f_value f) then Inr activity
          else
            and_then (unit_of (f_uom f)) (\<lambda>u.
            and_then (stat_update h (Stats activity statKey) (new_stat u type (f_value f))) (\<lambda>st.
            and_then (if useSourceUnits then asUnits h st u else Inr st) (\<lambda>st'.
              Inr (activity\<lparr>Stats := (Stats activity)(statKey := st')\<rparr>)))))"

text \<open>Lines 186 to 205, the calls of \<^verbatim>\<open>mapStat\<close> in their order.\<close>

definition stat_rules :: "(string \<times> statKey \<times> facet \<times> bool) list" where
  "stat_rules =
    [(''minSpeed'', Speed, F_min, True),
     (''maxSpeed'', Speed, F_max, True),
     (''weightedMeanSpeed'', Speed, F_avg, True),
     (''minAirTemperature'', Temperature, F_min, False),
     (''maxAirTemperature'', Temperature, F_max, False),
     (''weightedMeanAirTemperature'', Temperature, F_avg, False),
     (''sumEnergy'', Energy, F_value, False),
     (''maxHeartRate'', HR, F_max, False),
     (''weightedMeanHeartRate'', HR, F_avg, False),
     (''maxRunCadence'', RunCadence, F_max, False),
     (''weightedMeanRunCadence'', RunCadence, F_avg, False),
     (''maxBikeCadence'', Cadence, F_max, False),
     (''weightedMeanBikeCadence'', Cadence, F_avg, False),
     (''minPower'', Power, F_min, False),
     (''maxPower'', Power, F_max, False),
     (''weightedMeanPower'', Power, F_avg, False),
     (''minElevation'', Elevation, F_min, False),
     (''maxElevation'', Elevation, F_max, False),
     (''gainElevation'', Elevation, F_gain, False),
     (''lossElevation'', Elevation, F_loss, False)]"

fun mapStats ::
  "host \<Rightarrow> raw_activity \<Rightarrow> (string \<times> statKey \<times> facet \<times> bool) list \<Rightarrow> Activity \<Rightarrow> error + Activity" where
  "mapStats h act [] activity = Inr activity"
| "mapStats h act ((gcKey, statKey, type, useSourceUnits) # rules) activity =
     and_then (mapStat h act gcKey statKey type useSourceUnits activity) (mapStats h act rules)"

text \<open>Lines 208 and 209.\<close>

definition fix_Power :: "Activity \<Rightarrow> Activity" where
  "fix_Power activity =
     (let p = Stats activity Power in
      case (s_Max p, s_Min p) of
        (Some mx, Some mn) \<Rightarrow>
          if py_gt mn mx then activity\<lparr>Stats := (Stats activity)(Power := p\<lparr>s_Min := None\<rparr>)\<rparr>
          else activity
      | _ \<Rightarrow> activity)"

text \<open>Lines 212 to 215.\<close>

definition fix_RunCadence :: "Activity \<Rightarrow> Activity" where
  "fix_RunCadence activity =
     (let c = Stats activity RunCadence;
          c1 = c\<lparr>s_Max := map_option py_double (s_Max c)\<rparr>;
          c2 = c1\<lparr>s_Average := map_option py_double (s_Average c1)\<rparr>
      in activity\<lparr>Stats := (Stats activity)(RunCadence := c2)\<rparr>)"

text \<open>
  Lines 218 to 226, one speed field at a time: \<open>get\<close> and \<open>put\<close> read and write the
  facet of \<^verbatim>\<open>activity.Stats.Speed\<close> the field was mapped to.
\<close>

definition fix_pace_facet ::
  "raw_activity \<Rightarrow> string \<Rightarrow> (ActivityStatistic \<Rightarrow> pyfloat option) \<Rightarrow>
     (pyfloat option \<Rightarrow> ActivityStatistic \<Rightarrow> ActivityStatistic) \<Rightarrow> Activity \<Rightarrow> error + Activity" where
  "fix_pace_facet act gcKey get put activity =
     (case measures act gcKey of
        None \<Rightarrow> Inr activity
      | Some f \<Rightarrow>
          if CHR '':'' \<in> set (f_withUnitAbbr f) \<and> facet_truthy (get (Stats activity Speed)) then
            (case get (Stats activity Speed) of
               None \<Rightarrow> Inr activity
             | Some v \<Rightarrow>
                 and_then (py_truediv 60 v) (\<lambda>q.
                   Inr (activity\<lparr>Stats := (Stats activity)(Speed := put (Some q) (Stats activity Speed))\<rparr>)))
          else Inr activity)"

definition fix_pace :: "raw_activity \<Rightarrow> Activity \<Rightarrow> error + Activity" where
  "fix_pace act activity =
     and_then (fix_pace_facet act ''minSpeed'' s_Min (\<lambda>v s. s\<lparr>s_Min := v\<rparr>) activity) (\<lambda>a1.
     and_then (fix_pace_facet act ''maxSpeed'' s_Max (\<lambda>v s. s\<lparr>s_Max := v\<rparr>) a1) (\<lambda>a2.
       fix_pace_facet act ''weightedMeanSpeed'' s_Average (\<lambda>v s. s\<lparr>s_Average := v\<rparr>) a2))"

text \<open>Lines 143 to 226: the record up to the point where its type is resolved.\<close>

definition build_activity :: "host \<Rightarrow> raw_activity \<Rightarrow> error + Activity" where
  "build_activity h act =
     and_then (set_Stationary act (UploadedActivity h)) (\<lambda>a1.
     and_then (set_TZ h act a1) (\<lambda>a1'.
     and_then (set_times act (set_Name act a1')) (\<lambda>a2.
     and_then (AdjustTZ h a2) (\<lambda>a3.
     and_then (set_Distance act a3) (\<lambda>a4.
     and_then (set_MovingTime act a4) (\<lambda>a5.
     and_then (mapStats h act stat_rules a5) (\<lambda>a6.
       fix_pace act (fix_RunCadence (fix_Power a6)))))))))"

text \<open>
  Lines 228 to 231: the type, the UID of the record as it then stands, and the remote id.
  The result is \<open>None\<close> when type resolution never returns.
\<close>

definition finish_activity ::
  "host \<Rightarrow> hentry list \<Rightarrow> raw_activity \<Rightarrow> Activity \<Rightarrow> (error + Activity) option" where
  "finish_activity h hier act activity =
     (case resolveActivityType hier (activityType_key act) of
        None \<Rightarrow> None
      | Some (Inl e) \<Rightarrow> Some (Inl e)
      | Some (Inr t) \<Rightarrow>
          Some (and_then (CalculateUID h (activity\<lparr>Type := t\<rparr>)) (\<lambda>a.
                  Inr (a\<lparr>ServiceData := Some (activityId act)\<rparr>))))"

definition normalize_activity ::
  "host \<Rightarrow> hentry list \<Rightarrow> raw_activity \<Rightarrow> (error + Activity) option" where
  "normalize_activity h hier act =
     (case build_activity h act of
        Inl e \<Rightarrow> Some (Inl e)
      | Inr activity \<Rightarrow> finish_activity h hier act activity)"


section \<open>Session manager\<close>

type_synonym cookies = "(string \<times> string) list"

text \<open>
  Modelled from the spec: the \<^verbatim>\<open>SessionCache\<close> (sessioncache.py is not among the
  sources), built at line 59 with a lifetime of 30 minutes and \<^verbatim>\<open>freshen_on_get\<close>.
  An entry holds a cookie set and the instant it expires. A read returns the cached set
  if present and unexpired and then extends its expiry by the lifetime; an entry is a
  miss strictly after its expiry. Instants are seconds; \<open>now\<close> is the clock at the call.
\<close>

type_synonym SessionCache = "string \<Rightarrow> (cookies \<times> real) option"

definition lifetime :: real where
  "lifetime = 30 * 60"

text \<open>
  Modelled from the spec: \<^verbatim>\<open>SessionCache.Get\<close>, the read with its sliding expiry.
\<close>

definition cache_Get :: "real \<Rightarrow> SessionCache \<Rightarrow> string \<Rightarrow> cookies option \<times> SessionCache" where
  "cache_Get now cache pk =
     (case cache pk of
        None \<Rightarrow> (None, cache)
      | Some (v, expiry) \<Rightarrow>
          if now \<le> expiry then (Some v, cache(pk \<mapsto> (v, now + lifetime)))
          else (None, cache))"

text \<open>Modelled from the spec: \<^verbatim>\<open>SessionCache.Set\<close>.\<close>

definition cache_Set :: "real \<Rightarrow> SessionCache \<Rightarrow> string \<Rightarrow> cookies \<Rightarrow> SessionCache" where
  "cache_Set now cache pk v = cache(pk \<mapsto> (v, now + lifetime))"

record ServiceRecord =
  ExternalID :: string
  ExtendedAuthorization_Password :: string
  ExtendedAuthorization_Email :: string

text \<open>The answers of the remote service, one function for each request the adapter sends.\<close>

record search_results =
  r_activities :: "raw_activity list option"  \<comment> \<open>\<^verbatim>\<open>res["activities"]\<close>, when there\<close>
  r_totalPages :: int  \<comment> \<open>\<^verbatim>\<open>int(res["search"]["totalPages"])\<close>\<close>

record remote =
  signin_get :: cookies  \<comment> \<open>\<^verbatim>\<open>preResp.cookies\<close>\<close>
  signin_post :: "string option \<Rightarrow> string option \<Rightarrow> cookies \<Rightarrow> int"  \<comment> \<open>the status code\<close>
  activities_get :: "cookies \<Rightarrow> nat \<Rightarrow> nat \<Rightarrow> search_results"
  tcx_get :: "cookies \<Rightarrow> nat \<Rightarrow> string"
  upload_post :: "cookies \<Rightarrow> string \<Rightarrow> string \<Rightarrow> nat list"
    \<comment> \<open>the \<^verbatim>\<open>internalId\<close> of each entry of \<^verbatim>\<open>successes\<close>\<close>
  name_post :: "cookies \<Rightarrow> nat \<Rightarrow> string \<Rightarrow> string option"
    \<comment> \<open>\<^verbatim>\<open>res["display"]["value"]\<close>, when \<^verbatim>\<open>"display"\<close> is there\<close>
  description_post :: "cookies \<Rightarrow> nat \<Rightarrow> string \<Rightarrow> string option"
  type_post :: "cookies \<Rightarrow> nat \<Rightarrow> string \<Rightarrow> string option"
    \<comment> \<open>\<^verbatim>\<open>res["activityType"]["key"]\<close>, when \<^verbatim>\<open>"activityType"\<close> is there\<close>

text \<open>
  \<^verbatim>\<open>_get_cookies\<close>. The result pairs what the call returns or raises with the cache
  it leaves. An empty cookie jar is false in \<^verbatim>\<open>if cached:\<close>.
\<close>

definition get_cookies ::
  "host \<Rightarrow> remote \<Rightarrow> real \<Rightarrow> SessionCache \<Rightarrow> ServiceRecord option \<Rightarrow> string option \<Rightarrow> string option
     \<Rightarrow> (error + cookies) \<times> SessionCache" where
  "get_cookies h rem now cache record email password =
     (let (cached, cache1) =
            (case record of
               None \<Rightarrow> (None, cache)
             | Some r \<Rightarrow> cache_Get now cache (ExternalID r))
      in case (record, cached) of
           (Some r, Some (c # cs)) \<Rightarrow> (Inr (c # cs), cache1)
         | _ \<Rightarrow>
           (let password' = (case record of
                               None \<Rightarrow> password
                             | Some r \<Rightarrow> Some (Decrypt h (ExtendedAuthorization_Password r)));
                email' = (case record of
                            None \<Rightarrow> email
                          | Some r \<Rightarrow> Some (Decrypt h (ExtendedAuthorization_Email r)));
                preResp = signin_get rem;
                status_code = signin_post rem email' password' preResp
            in if status_code \<ge> 500 \<and> status_code < 600 then
                 (Inl (APIException ''Remote API failure'' False), cache1)
               else if status_code \<noteq> 302 then
                 (Inl (APIException ''Invalid login'' True), cache1)
               else
                 (case record of
                    None \<Rightarrow> (Inr preResp, cache1)
                  | Some r \<Rightarrow> (Inr preResp, cache_Set now cache1 (ExternalID r) preResp))))"

section \<open>Listing\<close>

text \<open>
  The \<^verbatim>\<open>for\<close> loop of lines 138 to 233 over the records of one page, with the two
  result lists as they stand. An exception leaves the loop and the function.
\<close>

fun process_page ::
  "host \<Rightarrow> hentry list \<Rightarrow> raw_activity list \<Rightarrow> Activity list \<times> error list
     \<Rightarrow> (error + Activity list \<times> error list) option" where
  "process_page h hier [] acc = Some (Inr acc)"
| "process_page h hier (act # rest) (activities, exclusions) =
     (case measures act ''sumDistance'' of
        None \<Rightarrow>
          process_page h hier rest
            (activities, exclusions @ [APIExcludeActivity ''No distance'' (Some (activityId act))])
      | Some d \<Rightarrow>
          (case normalize_activity h hier act of
             None \<Rightarrow> None
           | Some (Inl e) \<Rightarrow> Some (Inl e)
           | Some (Inr activity) \<Rightarrow>
               process_page h hier rest (activities @ [activity], exclusions)))"

text \<open>
  The \<^verbatim>\<open>while True\<close> loop of lines 132 to 238; \<open>fetch start limit\<close> is the answer
  to the request of line 134. Nothing bounds the number of pages.
\<close>

partial_function (option) listing_loop ::
  "host \<Rightarrow> hentry list \<Rightarrow> (nat \<Rightarrow> nat \<Rightarrow> search_results) \<Rightarrow> bool \<Rightarrow> nat
     \<Rightarrow> Activity list \<times> error list \<Rightarrow> (error + Activity list \<times> error list) option" where
  "listing_loop h hier fetch exhaustive page acc =
     (let res = fetch ((page - 1) * 50) 50 in
      case r_activities res of
        None \<Rightarrow> Some (Inr acc)
      | Some acts \<Rightarrow>
          (case process_page h hier acts acc of
             None \<Rightarrow> None
           | Some (Inl e) \<Rightarrow> Some (Inl e)
           | Some (Inr acc') \<Rightarrow>
               if \<not> exhaustive \<or> r_totalPages res = int page then Some (Inr acc')
               else listing_loop h hier fetch exhaustive (page + 1) acc'))"

declare listing_loop.simps [code]

definition DownloadActivityList ::
  "host \<Rightarrow> remote \<Rightarrow> hentry list \<Rightarrow> real \<Rightarrow> SessionCache \<Rightarrow> ServiceRecord \<Rightarrow> bool
     \<Rightarrow> (error + Activity list \<times> error list) option \<times> SessionCache" where
  "DownloadActivityList h rem hier now cache serviceRecord exhaustive =
     (case get_cookies h rem now cache (Some serviceRecord) None None of
        (Inl e, cache') \<Rightarrow> (Some (Inl e), cache')
      | (Inr cookies, cache') \<Rightarrow>
          (listing_loop h hier (activities_get rem cookies) exhaustive 1 ([], []), cache'))"

section \<open>Detail fetcher\<close>

definition DownloadActivity ::
  "host \<Rightarrow> remote \<Rightarrow> real \<Rightarrow> SessionCache \<Rightarrow> ServiceRecord \<Rightarrow> Activity
     \<Rightarrow> (error + Activity) \<times> SessionCache" where
  "DownloadActivity h rem now cache serviceRecord activity =
     (case ServiceData activity of
        None \<Rightarrow> (Inl (TypeError ''ServiceData''), cache)
      | Some activityID \<Rightarrow>
          (case get_cookies h rem now cache (Some serviceRecord) None None of
             (Inl e, cache') \<Rightarrow> (Inl e, cache')
           | (Inr cookies, cache') \<Rightarrow>
               (case TCXIO_Parse h (tcx_get rem cookies activityID) activity of
                  Inl (ValueError m) \<Rightarrow>
                    (Inl (APIExcludeActivity (''TCX parse error '' @ m) None), cache')
                | Inl e \<Rightarrow> (Inl e, cache')
                | Inr parsed \<Rightarrow>
                    (case Laps parsed of
                       [lap] \<Rightarrow>
                         (case stats_update h (l_Stats lap) (Stats parsed) of
                            Inl e \<Rightarrow> (Inl e, cache')
                          | Inr st \<Rightarrow>
                              (Inr (parsed\<lparr>Laps := [lap\<lparr>l_Stats := st\<rparr>], Stats := st\<rparr>), cache'))
                     | _ \<Rightarrow> (Inr parsed, cache')))))"

section \<open>Upload pipeline\<close>

text \<open>The requests \<^verbatim>\<open>UploadActivity\<close> sends after the login, in the order sent.\<close>

datatype request =
    Upload string string  \<comment> \<open>file name, file\<close>
  | SetName nat string  \<comment> \<open>activity id in the URL, value\<close>
  | SetDescription nat string
  | SetType nat string

fun request_id :: "request \<Rightarrow> nat option" where
  "request_id (Upload n f) = None"
| "request_id (SetName i v) = Some i"
| "request_id (SetDescription i v) = Some i"
| "request_id (SetType i v) = Some i"

text \<open>\<^verbatim>\<open>str(n)\<close> of a process id.\<close>

fun str_nat :: "nat \<Rightarrow> string" where
  "str_nat n =
     (if n < 10 then [char_of (48 + n)]
      else str_nat (n div 10) @ [char_of (48 + n mod 10)])"

declare str_nat.simps [simp del]

text \<open>Line 259, the name of the uploaded file.\<close>

definition upload_file_name :: "nat \<Rightarrow> string \<Rightarrow> string" where
  "upload_file_name pid uid = ''tap-sync-'' @ str_nat pid @ ''-'' @ uid @ ''.fit''"

text \<open>Lines 270 to 274. Each step returns what it raises, if anything, and the requests so far.\<close>

definition name_step ::
  "remote \<Rightarrow> cookies \<Rightarrow> nat \<Rightarrow> Activity \<Rightarrow> request list \<Rightarrow> (error + unit) \<times> request list" where
  "name_step rem cookies actid activity sent =
     (case Name activity of
        None \<Rightarrow> (Inr (), sent)
      | Some name \<Rightarrow>
          if name = [] then (Inr (), sent)
          else if name_post rem cookies actid name \<noteq> Some name
            then (Inl (APIWarning ''Unable to set activity name''), sent @ [SetName actid name])
            else (Inr (), sent @ [SetName actid name]))"

text \<open>Lines 276 to 280.\<close>

definition notes_step ::
  "remote \<Rightarrow> cookies \<Rightarrow> nat \<Rightarrow> Activity \<Rightarrow> request list \<Rightarrow> (error + unit) \<times> request list" where
  "notes_step rem cookies actid activity sent =
     (case Notes activity of
        None \<Rightarrow> (Inr (), sent)
      | Some notes \<Rightarrow>
          if notes = [] then (Inr (), sent)
          else if description_post rem cookies actid notes \<noteq> Some notes
            then (Inl (APIWarning ''Unable to set activity notes''), sent @ [SetDescription actid notes])
            else (Inr (), sent @ [SetDescription actid notes]))"

text \<open>
  Lines 282 to 292. The message of line 286 ends with the type; the host's types are
  strings there and the model keeps the fixed part of the message.
\<close>

definition type_step ::
  "remote \<Rightarrow> cookies \<Rightarrow> nat \<Rightarrow> Activity \<Rightarrow> request list \<Rightarrow> (error + unit) \<times> request list" where
  "type_step rem cookies actid activity sent =
     (if Type activity \<notin> set [Running, Cycling, Other] then
        (case map fst (filter (\<lambda>(k, v). v = Type activity) reverseActivityMappings) of
           [] \<Rightarrow> (Inl (APIWarning ''GarminConnect does not support activity type ''), sent)
         | acttype # others \<Rightarrow>
             if type_post rem cookies actid acttype \<noteq> Some acttype
             then (Inl (APIWarning ''Unable to set activity type''), sent @ [SetType actid acttype])
             else (Inr (), sent @ [SetType actid acttype]))
      else (Inr (), sent))"

text \<open>Lines 270 to 292: a step that raises ends the function.\<close>

definition follow_up ::
  "remote \<Rightarrow> cookies \<Rightarrow> nat \<Rightarrow> Activity \<Rightarrow> request list \<Rightarrow> (error + unit) \<times> request list" where
  "follow_up rem cookies actid activity sent =
     (case name_step rem cookies actid activity sent of
        (Inl e, sent1) \<Rightarrow> (Inl e, sent1)
      | (Inr u, sent1) \<Rightarrow>
          (case notes_step rem cookies actid activity sent1 of
             (Inl e, sent2) \<Rightarrow> (Inl e, sent2)
           | (Inr u, sent2) \<Rightarrow> type_step rem cookies actid activity sent2))"

text \<open>
  \<^verbatim>\<open>UploadActivity\<close>: what it raises, if anything, the requests it sent and the cache
  it leaves. \<open>pid\<close> is \<^verbatim>\<open>os.getpid()\<close>.
\<close>

definition UploadActivity ::
  "host \<Rightarrow> remote \<Rightarrow> real \<Rightarrow> nat \<Rightarrow> SessionCache \<Rightarrow> ServiceRecord \<Rightarrow> Activity
     \<Rightarrow> (error + unit) \<times> request list \<times> SessionCache" where
  "UploadActivity h rem now pid cache serviceRecord activity0 =
     (case EnsureTZ h activity0 of
        Inl e \<Rightarrow> (Inl e, [], cache)
      | Inr activity \<Rightarrow>
          (case FITIO_Dump h activity of
             Inl e \<Rightarrow> (Inl e, [], cache)
           | Inr fit_file \<Rightarrow>
               (case UID activity of
                  None \<Rightarrow> (Inl (TypeError ''UID''), [], cache)
                | Some uid \<Rightarrow>
                    (let fname = upload_file_name pid uid in
                     case get_cookies h rem now cache (Some serviceRecord) None None of
                       (Inl e, cache') \<Rightarrow> (Inl e, [], cache')
                     | (Inr cookies, cache') \<Rightarrow>
                         (case upload_post rem cookies fname fit_file of
                            [] \<Rightarrow>
                              (Inl (APIException ''Unable to upload activity'' False),
                               [Upload fname fit_file], cache')
                          | [actid] \<Rightarrow>
                              (case follow_up rem cookies actid activity [Upload fname fit_file] of
                                 (r, sent) \<Rightarrow> (r, sent, cache'))
                          | actid # others \<Rightarrow>
                              (Inl (APIException
                                      ''Uploaded succeeded, resulting in too many activities'' False),
                               [Upload fname fit_file], cache'))))))"


section \<open>Concrete inputs\<close>

text \<open>A forest with a root and one branch, and a forest whose two entries point at each other.\<close>

definition forest_example :: "hentry list" where
  "forest_example =
    [\<lparr>h_key = ''all'', h_parent = None\<rparr>,
     \<lparr>h_key = ''running'', h_parent = Some ''all''\<rparr>,
     \<lparr>h_key = ''trail_running'', h_parent = Some ''running''\<rparr>]"

definition forest_cyclic :: "hentry list" where
  "forest_cyclic =
    [\<lparr>h_key = ''fell_running'', h_parent = Some ''hill_running''\<rparr>,
     \<lparr>h_key = ''hill_running'', h_parent = Some ''fell_running''\<rparr>]"

text \<open>
  A host for the concrete inputs: fresh activities with the usual default units, a unit
  conversion between miles and kilometres per hour only, an update that takes over the
  facets that are set, and a UID made of the start instant's sign and the name.
\<close>

definition default_units :: "statKey \<Rightarrow> ActivityStatisticUnit" where
  "default_units k =
     (case k of
        Distance \<Rightarrow> Meters | MovingTime \<Rightarrow> Time | Speed \<Rightarrow> KilometersPerHour
      | Temperature \<Rightarrow> DegreesCelcius | Energy \<Rightarrow> Kilocalories | HR \<Rightarrow> BeatsPerMinute
      | RunCadence \<Rightarrow> StepsPerMinute | Cadence \<Rightarrow> RevolutionsPerMinute
      | Power \<Rightarrow> Watts | Elevation \<Rightarrow> Meters)"

definition blank_stat :: "ActivityStatisticUnit \<Rightarrow> ActivityStatistic" where
  "blank_stat u =
     \<lparr>s_Units = u, s_Value = None, s_Max = None, s_Min = None, s_Average = None,
      s_Gain = None, s_Loss = None\<rparr>"

definition blank_activity :: Activity where
  "blank_activity =
     \<lparr>Stationary = None, TZ = None, Name = None, Notes = None, StartTime = None,
      EndTime = None, Stats = (\<lambda>k. blank_stat (default_units k)), Type = Other, UID = None,
      ServiceData = None, Laps = []\<rparr>"

definition scale_stat :: "real \<Rightarrow> ActivityStatisticUnit \<Rightarrow> ActivityStatistic \<Rightarrow> ActivityStatistic" where
  "scale_stat c u s =
     \<lparr>s_Units = u,
      s_Value = map_option (py_scale c) (s_Value s),
      s_Max = map_option (py_scale c) (s_Max s),
      s_Min = map_option (py_scale c) (s_Min s),
      s_Average = map_option (py_scale c) (s_Average s),
      s_Gain = map_option (py_scale c) (s_Gain s),
      s_Loss = map_option (py_scale c) (s_Loss s)\<rparr>"

definition plain_asUnits :: "ActivityStatistic \<Rightarrow> ActivityStatisticUnit \<Rightarrow> error + ActivityStatistic" where
  "plain_asUnits s u =
     (if u = s_Units s then Inr s
      else if s_Units s = MilesPerHour \<and> u = KilometersPerHour
        then Inr (scale_stat (1609344 / 1000000) u s)
      else if s_Units s = KilometersPerHour \<and> u = MilesPerHour
        then Inr (scale_stat (1000000 / 1609344) u s)
      else Inl (ValueError ''No conversion between these units''))"

definition first_set :: "'a option \<Rightarrow> 'a option \<Rightarrow> 'a option" where
  "first_set new old = (case new of None \<Rightarrow> old | Some v \<Rightarrow> Some v)"

definition plain_update :: "ActivityStatistic \<Rightarrow> ActivityStatistic \<Rightarrow> error + ActivityStatistic" where
  "plain_update s t =
     and_then (plain_asUnits t (s_Units s)) (\<lambda>t'.
       Inr \<lparr>s_Units = s_Units s,
            s_Value = first_set (s_Value t') (s_Value s),
            s_Max = first_set (s_Max t') (s_Max s),
            s_Min = first_set (s_Min t') (s_Min s),
            s_Average = first_set (s_Average t') (s_Average s),
            s_Gain = first_set (s_Gain t') (s_Gain s),
            s_Loss = first_set (s_Loss t') (s_Loss s)\<rparr>)"

definition plain_host :: host where
  "plain_host =
     \<lparr>UploadedActivity = blank_activity,
      timezone_known = (\<lambda>k. k = ''Europe/Paris''),
      AdjustTZ = Inr,
      stat_update = plain_update,
      asUnits = plain_asUnits,
      CalculateUID = (\<lambda>a. Inr (a\<lparr>UID := Some ((if StartTime a = None then ''?'' else ''t'')
                                               @ (case Name a of None \<Rightarrow> [] | Some n \<Rightarrow> n))\<rparr>)),
      stats_update = (\<lambda>mine theirs. Inr theirs),
      TCXIO_Parse = (\<lambda>content a.
        if content = [] then Inl (ValueError ''empty'')
        else Inr (a\<lparr>Laps := [\<lparr>l_Stats = (\<lambda>k. blank_stat (default_units k)), l_payload = content\<rparr>]\<rparr>)),
      EnsureTZ = Inr,
      FITIO_Dump = (\<lambda>a. Inr ''FIT''),
      Decrypt = (\<lambda>blob. blob)\<rparr>"

text \<open>Listing records: a run with a pace shown for its maximum speed, and variations.\<close>

definition field :: "real \<Rightarrow> string \<Rightarrow> string \<Rightarrow> gcfield" where
  "field v uom display = \<lparr>f_value = Fin v, f_uom = uom, f_withUnitAbbr = display\<rparr>"

definition run_record :: raw_activity where
  "run_record =
     \<lparr>activityId = 1001,
      measures = map_of
        [(''sumDistance'', field 5 ''mile'' ''5.00 mi''),
         (''sumElapsedDuration'', field 1800 ''second'' ''30:00''),
         (''maxSpeed'', field (109 / 10) ''mph'' ''5:30 min/mi''),
         (''weightedMeanSpeed'', field 0 ''mph'' ''--:-- min/mi'')],
      beginLatitude = Some \<lparr>c_addr = 1, c_value = Fin (91 / 2)\<rparr>,
      endLatitude = Some \<lparr>c_addr = 2, c_value = Fin (91 / 2)\<rparr>,
      beginLongitude = Some \<lparr>c_addr = 3, c_value = Fin (29 / 4)\<rparr>,
      endLongitude = Some \<lparr>c_addr = 4, c_value = Fin (29 / 4)\<rparr>,
      activityTimeZone_key = ''Europe/Paris'',
      activityTimeZone_offset = Fin 1,
      activityName_value = ''Morning run'',
      beginTimestamp_millis = Fin 1380000000000,
      sumDuration_minutesSeconds = None,
      endTimestamp_millis = None,
      activityType_key = ''trail_running''\<rparr>"

definition no_distance_record :: raw_activity where
  "no_distance_record = run_record\<lparr>activityId := 1002, measures := Map.empty\<rparr>"

definition unknown_type_record :: raw_activity where
  "unknown_type_record = run_record\<lparr>activityId := 1003, activityType_key := ''quidditch''\<rparr>"

definition no_longitude_record :: raw_activity where
  "no_longitude_record =
     run_record\<lparr>activityId := 1004,
                endLatitude := Some \<lparr>c_addr = 2, c_value = Fin 46\<rparr>,
                beginLongitude := None, endLongitude := None\<rparr>"

text \<open>
  An activity as the three speed calls of \<^verbatim>\<open>mapStat\<close> leave \<open>run_record\<close>: the
  maximum 10.9 and the average 0, both in miles per hour.
\<close>

definition mapped_run :: Activity where
  "mapped_run =
     blank_activity\<lparr>Stats := (Stats blank_activity)
       (Speed := \<lparr>s_Units = MilesPerHour, s_Value = None, s_Max = Some (Fin (109 / 10)),
                  s_Min = None, s_Average = Some (Fin 0), s_Gain = None, s_Loss = None\<rparr>)\<rparr>"

text \<open>
  An activity as a listing returned it, with a name, notes, a type to correct and a
  distance of 7200 metres.
\<close>

definition listed_hike :: Activity where
  "listed_hike =
     blank_activity\<lparr>Name := Some ''Col du Lautaret'', Notes := Some ''Windy'',
                     StartTime := Some 1380000000, EndTime := Some 1380001800,
                     Stats := (Stats blank_activity)(Distance := new_stat Meters F_value (Fin 7200)),
                     Type := Hiking, UID := Some ''tCol du Lautaret'',
                     ServiceData := Some 1001\<rparr>"

definition service_record :: ServiceRecord where
  "service_record =
     \<lparr>ExternalID = ''user1'', ExtendedAuthorization_Password = ''secret'',
      ExtendedAuthorization_Email = ''runner@example.org''\<rparr>"

text \<open>
  A remote service that accepts the login, lists \<open>page\<close> as its only page, imports an
  uploaded file as activity 77 and echoes every value it is sent.
\<close>

definition echo_remote :: "raw_activity list \<Rightarrow> remote" where
  "echo_remote page =
     \<lparr>signin_get = [(''JSESSIONID'', ''A1'')],
      signin_post = (\<lambda>email password c. 302),
      activities_get = (\<lambda>c start limit.
        if start = 0 then \<lparr>r_activities = Some page, r_totalPages = 1\<rparr>
        else \<lparr>r_activities = None, r_totalPages = 1\<rparr>),
      tcx_get = (\<lambda>c i. ''<tcx/>''),
      upload_post = (\<lambda>c n f. [77]),
      name_post = (\<lambda>c i v. Some v),
      description_post = (\<lambda>c i v. Some v),
      type_post = (\<lambda>c i v. Some v)\<rparr>"

text \<open>
  A cache at the instant 5000: the entry of \<open>user1\<close> expired at 100, the entry of
  \<open>user2\<close> is good until 9000.
\<close>

definition stale_cache :: SessionCache where
  "stale_cache =
     [''user1'' \<mapsto> ([(''JSESSIONID'', ''old'')], 100),
      ''user2'' \<mapsto> ([(''JSESSIONID'', ''B2'')], 9000)]"

text \<open>
  A record whose minimum speed is a pace in minutes per kilometre and whose maximum speed
  is a pace in minutes per mile.
\<close>

definition mixed_units_record :: raw_activity where
  "mixed_units_record =
     run_record\<lparr>activityId := 1005,
       measures := map_of
        [(''sumDistance'', field 5 ''kilometer'' ''5.00 km''),
         (''sumElapsedDuration'', field 1800 ''second'' ''30:00''),
         (''minSpeed'', field 6 ''kph'' ''10:00 min/km''),
         (''maxSpeed'', field 10 ''mph'' ''6:00 min/mi'')]\<rparr>"

text \<open>A cache that holds an empty cookie jar for \<open>user1\<close>, good until 6000.\<close>

definition empty_jar_cache :: SessionCache where
  "empty_jar_cache = [''user1'' \<mapsto> ([], 6000)]"

section \<open>Auxiliary notions\<close>

text \<open>
  Whether lines 218 to 226 rewrite a facet holding \<open>v\<close>: the field is in the record, its
  display text has a colon and the facet is true.
\<close>

definition pace_applies :: "raw_activity \<Rightarrow> string \<Rightarrow> pyfloat option \<Rightarrow> bool" where
  "pace_applies act gcKey v =
     (case measures act gcKey of
        None \<Rightarrow> False
      | Some f \<Rightarrow> CHR '':'' \<in> set (f_withUnitAbbr f) \<and> facet_truthy v)"

definition pace_outcome :: "raw_activity \<Rightarrow> string \<Rightarrow> pyfloat option \<Rightarrow> pyfloat option \<Rightarrow> bool" where
  "pace_outcome act gcKey before after =
     (if pace_applies act gcKey before
      then \<exists>v q. before = Some v \<and> py_truediv 60 v = Inr q \<and> after = Some q
      else after = before)"

text \<open>The facet of a statistic that a keyword of the constructor names.\<close>

fun facet_of :: "facet \<Rightarrow> ActivityStatistic \<Rightarrow> pyfloat option" where
  "facet_of F_value s = s_Value s"
| "facet_of F_max s = s_Max s"
| "facet_of F_min s = s_Min s"
| "facet_of F_avg s = s_Average s"
| "facet_of F_gain s = s_Gain s"
| "facet_of F_loss s = s_Loss s"

text \<open>
  What keeping source units asks of the host, for a unit \<open>u\<close>: when a statistic is updated
  with one facet \<open>v\<close> in the unit \<open>u\<close> and then taken in the unit \<open>u\<close>, as \<^verbatim>\<open>mapStat\<close>
  does with \<^verbatim>\<open>useSourceUnits\<close>, the result is in the unit \<open>u\<close>, the facet holds \<open>v\<close>
  itself, and the other facets of a statistic that was already in the unit \<open>u\<close> stay.
\<close>

definition maps_in_units :: "host \<Rightarrow> ActivityStatisticUnit \<Rightarrow> bool" where
  "maps_in_units h u =
     (\<forall>s ty v st s'.
        stat_update h s (new_stat u ty v) = Inr st \<longrightarrow> asUnits h st u = Inr s' \<longrightarrow>
          s_Units s' = u \<and> facet_of ty s' = Some v
          \<and> (s_Units s = u \<longrightarrow> (\<forall>ty'. ty' \<noteq> ty \<longrightarrow> facet_of ty' s' = facet_of ty' s)))"

text \<open>The speed field \<open>gcKey\<close> of a record, if it is mapped at all, is in the unit \<open>u\<close>.\<close>

definition speed_field_in :: "raw_activity \<Rightarrow> string \<Rightarrow> ActivityStatisticUnit \<Rightarrow> bool" where
  "speed_field_in act gcKey u =
     (case measures act gcKey of
        None \<Rightarrow> True
      | Some f \<Rightarrow> isinf (f_value f) \<or> unit_of (f_uom f) = Inr u)"

section \<open>Type resolution: termination\<close>

lemma finite_parent_edges: "finite (parent_edges hier)"
proof -
  have "parent_edges hier \<subseteq> (\<lambda>x. (the (h_parent x), h_key x)) ` set hier"
    by (auto simp: parent_edges_def image_iff) force
  then show ?thesis by (rule finite_subset) simp
qed

lemma parent_keys_edge:
  "parent_keys hier t = Inr ps \<Longrightarrow> p \<in> set ps \<Longrightarrow> (p, t) \<in> parent_edges hier"
proof (induction hier arbitrary: ps)
  case Nil
  then show ?case by simp
next
  case (Cons x xs)
  show ?case
  proof (cases "h_key x = t")
    case False
    with Cons show ?thesis by (auto simp: parent_edges_def)
  next
    case True
    with Cons.prems obtain q qs
      where q: "h_parent x = Some q" "parent_keys xs t = Inr qs" "ps = q # qs"
      by (auto split: option.splits sum.splits)
    have x: "x = \<lparr>h_key = t, h_parent = Some q\<rparr>" using True q by simp
    show ?thesis
    proof (cases "p = q")
      case True
      with x show ?thesis by (auto simp: parent_edges_def)
    next
      case False
      with Cons.prems q have "p \<in> set qs" by simp
      from Cons.IH[OF q(2) this] show ?thesis by (auto simp: parent_edges_def)
    qed
  qed
qed

lemma resolve_within_sound:
  "resolve_within n hier t = Some r \<Longrightarrow> resolveActivityType hier t = Some r"
proof (induction n arbitrary: t)
  case 0
  then show ?case by simp
next
  case (Suc n)
  show ?case
  proof (cases "map_of activityMappings t")
    case (Some a)
    with Suc.prems show ?thesis by (subst resolveActivityType.simps) simp
  next
    case None
    show ?thesis
    proof (cases "parent_keys hier t")
      case (Inl e)
      with None Suc.prems show ?thesis by (subst resolveActivityType.simps) simp
    next
      case (Inr ps)
      show ?thesis
      proof (cases ps)
        case Nil
        with None Inr Suc.prems show ?thesis by (subst resolveActivityType.simps) simp
      next
        case (Cons p ps')
        with None Inr Suc.prems have "resolve_within n hier p = Some r" by simp
        from Suc.IH[OF this] None Inr Cons show ?thesis
          by (subst resolveActivityType.simps) simp
      qed
    qed
  qed
qed

lemma ancestors_subset: "ancestors hier t \<subseteq> fst ` parent_edges hier"
proof
  fix p assume "p \<in> ancestors hier t"
  then have "(p, t) \<in> (parent_edges hier)\<^sup>+" by (simp add: ancestors_def)
  then obtain z where "(p, z) \<in> parent_edges hier" by (meson tranclD)
  then show "p \<in> fst ` parent_edges hier" by force
qed

lemma finite_ancestors: "finite (ancestors hier t)"
  using ancestors_subset finite_parent_edges by (meson finite_imageI finite_subset)

lemma card_parent_edges: "card (parent_edges hier) \<le> length hier"
proof -
  have "parent_edges hier \<subseteq> (\<lambda>x. (the (h_parent x), h_key x)) ` set hier"
    by (auto simp: parent_edges_def image_iff) force
  then have "card (parent_edges hier) \<le> card ((\<lambda>x. (the (h_parent x), h_key x)) ` set hier)"
    by (intro card_mono) simp_all
  also have "\<dots> \<le> card (set hier)" by (rule card_image_le) simp
  also have "\<dots> \<le> length hier" by (rule card_length)
  finally show ?thesis .
qed

lemma card_ancestors: "card (ancestors hier t) \<le> length hier"
proof -
  have "card (ancestors hier t) \<le> card (fst ` parent_edges hier)"
    by (intro card_mono ancestors_subset finite_imageI finite_parent_edges)
  also have "\<dots> \<le> card (parent_edges hier)"
    by (rule card_image_le) (rule finite_parent_edges)
  finally show ?thesis using card_parent_edges [of hier] by simp
qed

lemma ancestors_step:
  assumes "acyclic (parent_edges hier)" and "(p, t) \<in> parent_edges hier"
  shows "ancestors hier p \<subset> ancestors hier t"
proof
  show "ancestors hier p \<subseteq> ancestors hier t"
    using assms(2) by (auto simp: ancestors_def intro: trancl_into_trancl)
  have "p \<in> ancestors hier t" using assms(2) by (simp add: ancestors_def)
  moreover have "p \<notin> ancestors hier p"
    using assms(1) by (simp add: ancestors_def acyclic_def)
  ultimately show "ancestors hier p \<noteq> ancestors hier t" by blast
qed

lemma resolve_within_enough:
  assumes "acyclic (parent_edges hier)"
  shows "card (ancestors hier t) < n \<Longrightarrow> \<exists>r. resolve_within n hier t = Some r"
proof (induction n arbitrary: t)
  case 0
  then show ?case by simp
next
  case (Suc n)
  show ?case
  proof (cases "map_of activityMappings t")
    case (Some a)
    then show ?thesis by simp
  next
    case None
    show ?thesis
    proof (cases "parent_keys hier t")
      case (Inl e)
      with None show ?thesis by simp
    next
      case (Inr ps)
      show ?thesis
      proof (cases ps)
        case Nil
        with None Inr show ?thesis by simp
      next
        case (Cons p ps')
        with Inr have "(p, t) \<in> parent_edges hier"
          by (auto intro: parent_keys_edge)
        from ancestors_step [OF assms this] finite_ancestors [of hier t]
        have "card (ancestors hier p) < card (ancestors hier t)"
          by (rule psubset_card_mono [rotated])
        with Suc.prems have "card (ancestors hier p) < n" by simp
        from Suc.IH [OF this] None Inr Cons show ?thesis by simp
      qed
    qed
  qed
qed

text \<open>
  C1 (as amended). For every raw key, \<^verbatim>\<open>_resolveActivityType\<close> returns - a canonical type
  or an exception - when the parent edges of the hierarchy are acyclic, and it does so
  within as many parent steps as the hierarchy has entries. The source has no step cap of
  its own: the statement is about the loop as it is written.
\<close>

theorem resolveActivityType_returns_if_acyclic:
  assumes "acyclic (parent_edges hier)"
  shows "\<exists>r. resolveActivityType hier t = Some r
           \<and> resolve_within (Suc (length hier)) hier t = Some r"
proof -
  have "card (ancestors hier t) < Suc (length hier)"
    using card_ancestors [of hier t] by simp
  from resolve_within_enough [OF assms this] obtain r
    where r: "resolve_within (Suc (length hier)) hier t = Some r" by blast
  from resolve_within_sound [OF r] r show ?thesis by blast
qed

lemma parent_edges_forest_example:
  "parent_edges forest_example = {(''all'', ''running''), (''running'', ''trail_running'')}"
  by (auto simp: parent_edges_def forest_example_def)

lemma acyclic_forest_example: "acyclic (parent_edges forest_example)"
  unfolding parent_edges_forest_example
  by (simp add: acyclic_insert rtrancl_insert wf_acyclic)

theorem resolveActivityType_returns_if_acyclic_witness:
  "acyclic (parent_edges forest_example)
     \<and> resolveActivityType forest_example ''trail_running'' = Some (Inr Running)
     \<and> resolve_within 4 forest_example ''trail_running'' = Some (Inr Running)"
proof -
  from resolveActivityType_returns_if_acyclic [OF acyclic_forest_example, of "''trail_running''"]
  obtain r where r: "resolveActivityType forest_example ''trail_running'' = Some r"
    "resolve_within (Suc (length forest_example)) forest_example ''trail_running'' = Some r"
    by blast
  have "resolve_within (Suc (length forest_example)) forest_example ''trail_running''
      = Some (Inr Running)"
    by (simp add: forest_example_def activityMappings_def)
  with r have "r = Inr Running" by simp
  moreover have "Suc (length forest_example) = 4" by (simp add: forest_example_def)
  ultimately show ?thesis using r acyclic_forest_example by simp
qed

lemma resolveActivityType_cyclic_aux:
  assumes "resolveActivityType hier t = Some y"
  shows "\<not> (hier = forest_cyclic \<and> (t = ''fell_running'' \<or> t = ''hill_running''))"
proof (rule resolveActivityType.raw_induct
    [where P = "\<lambda>h k r. \<not> (h = forest_cyclic \<and> (k = ''fell_running'' \<or> k = ''hill_running''))",
      OF _ assms])
  fix f :: "hentry list \<Rightarrow> string \<Rightarrow> (error + ActivityType) option"
  fix h k r
  assume IH: "\<And>a b y. f a b = Some y \<Longrightarrow>
      \<not> (a = forest_cyclic \<and> (b = ''fell_running'' \<or> b = ''hill_running''))"
  assume eq: "(case map_of activityMappings k of
      None \<Rightarrow>
        (case parent_keys h k of
           Inl e \<Rightarrow> Some (Inl e)
         | Inr [] \<Rightarrow> Some (Inl (ValueError ''Activity type not found in activity hierarchy''))
         | Inr (p # ps) \<Rightarrow> f h p)
    | Some t \<Rightarrow> Some (Inr t)) = Some r"
  show "\<not> (h = forest_cyclic \<and> (k = ''fell_running'' \<or> k = ''hill_running''))"
  proof
    assume hk: "h = forest_cyclic \<and> (k = ''fell_running'' \<or> k = ''hill_running'')"
    then consider "k = ''fell_running''" | "k = ''hill_running''" by blast
    then show False
    proof cases
      case 1
      with eq hk have "f forest_cyclic ''hill_running'' = Some r"
        by (simp add: activityMappings_def forest_cyclic_def)
      from IH[OF this] show False by simp
    next
      case 2
      with eq hk have "f forest_cyclic ''fell_running'' = Some r"
        by (simp add: activityMappings_def forest_cyclic_def)
      from IH[OF this] show False by simp
    qed
  qed
qed

text \<open>
  C1 as stated fails: on a forest with a cycle the loop raises nothing, it never returns.
\<close>

theorem resolveActivityType_cycle_never_returns:
  "resolveActivityType forest_cyclic ''fell_running'' = None"
  using resolveActivityType_cyclic_aux [of forest_cyclic "''fell_running''"]
  by (cases "resolveActivityType forest_cyclic ''fell_running''") auto

section \<open>Pace shown as speed\<close>

lemma py_truediv_truthy: "float_truthy v \<Longrightarrow> \<exists>q. py_truediv a v = Inr q"
  by (cases v) (auto simp: float_truthy_def)

lemma fix_pace_facet_skip:
  "\<not> pace_applies act gcKey (get (Stats a Speed)) \<Longrightarrow> fix_pace_facet act gcKey get put a = Inr a"
  by (auto simp: fix_pace_facet_def pace_applies_def split: option.splits)

lemma fix_pace_facet_apply:
  assumes "pace_applies act gcKey (get (Stats a Speed))"
  shows "\<exists>v q. get (Stats a Speed) = Some v \<and> float_truthy v \<and> py_truediv 60 v = Inr q \<and>
           fix_pace_facet act gcKey get put a =
             Inr (a\<lparr>Stats := (Stats a)(Speed := put (Some q) (Stats a Speed))\<rparr>)"
proof -
  from assms obtain f v where f: "measures act gcKey = Some f" "CHR '':'' \<in> set (f_withUnitAbbr f)"
    and v: "get (Stats a Speed) = Some v" "float_truthy v"
    by (auto simp: pace_applies_def facet_truthy_def split: option.splits)
  from py_truediv_truthy[OF v(2)] obtain q where q: "py_truediv 60 v = Inr q" by blast
  with f v show ?thesis
    by (simp add: fix_pace_facet_def facet_truthy_def and_then_def)
qed

lemma fix_pace_min:
  "\<exists>a'. fix_pace_facet act ''minSpeed'' s_Min (\<lambda>v s. s\<lparr>s_Min := v\<rparr>) a = Inr a'
     \<and> s_Units (Stats a' Speed) = s_Units (Stats a Speed)
     \<and> s_Max (Stats a' Speed) = s_Max (Stats a Speed)
     \<and> s_Average (Stats a' Speed) = s_Average (Stats a Speed)
     \<and> (if pace_applies act ''minSpeed'' (s_Min (Stats a Speed))
        then \<exists>v q. s_Min (Stats a Speed) = Some v \<and> py_truediv 60 v = Inr q
               \<and> s_Min (Stats a' Speed) = Some q
        else s_Min (Stats a' Speed) = s_Min (Stats a Speed))"
proof (cases "pace_applies act ''minSpeed'' (s_Min (Stats a Speed))")
  case True
  from fix_pace_facet_apply[where get = s_Min and put = "\<lambda>v s. s\<lparr>s_Min := v\<rparr>", OF True] True
  show ?thesis by auto
next
  case False
  from fix_pace_facet_skip[where get = s_Min, OF False] False show ?thesis by simp
qed


lemma fix_pace_max:
  "\<exists>a'. fix_pace_facet act ''maxSpeed'' s_Max (\<lambda>v s. s\<lparr>s_Max := v\<rparr>) a = Inr a'
     \<and> s_Units (Stats a' Speed) = s_Units (Stats a Speed)
     \<and> s_Min (Stats a' Speed) = s_Min (Stats a Speed)
     \<and> s_Average (Stats a' Speed) = s_Average (Stats a Speed)
     \<and> (if pace_applies act ''maxSpeed'' (s_Max (Stats a Speed))
        then \<exists>v q. s_Max (Stats a Speed) = Some v \<and> py_truediv 60 v = Inr q
               \<and> s_Max (Stats a' Speed) = Some q
        else s_Max (Stats a' Speed) = s_Max (Stats a Speed))"
proof (cases "pace_applies act ''maxSpeed'' (s_Max (Stats a Speed))")
  case True
  from fix_pace_facet_apply[where get = s_Max and put = "\<lambda>v s. s\<lparr>s_Max := v\<rparr>", OF True] True
  show ?thesis by auto
next
  case False
  from fix_pace_facet_skip[where get = s_Max, OF False] False show ?thesis by simp
qed

lemma fix_pace_avg:
  "\<exists>a'. fix_pace_facet act ''weightedMeanSpeed'' s_Average (\<lambda>v s. s\<lparr>s_Average := v\<rparr>) a = Inr a'
     \<and> s_Units (Stats a' Speed) = s_Units (Stats a Speed)
     \<and> s_Min (Stats a' Speed) = s_Min (Stats a Speed)
     \<and> s_Max (Stats a' Speed) = s_Max (Stats a Speed)
     \<and> (if pace_applies act ''weightedMeanSpeed'' (s_Average (Stats a Speed))
        then \<exists>v q. s_Average (Stats a Speed) = Some v \<and> py_truediv 60 v = Inr q
               \<and> s_Average (Stats a' Speed) = Some q
        else s_Average (Stats a' Speed) = s_Average (Stats a Speed))"
proof (cases "pace_applies act ''weightedMeanSpeed'' (s_Average (Stats a Speed))")
  case True
  from fix_pace_facet_apply[where get = s_Average and put = "\<lambda>v s. s\<lparr>s_Average := v\<rparr>", OF True] True
  show ?thesis by auto
next
  case False
  from fix_pace_facet_skip[where get = s_Average, OF False] False show ?thesis by simp
qed

lemma fix_pace_effect:
  "\<exists>a'. fix_pace act a = Inr a'
     \<and> s_Units (Stats a' Speed) = s_Units (Stats a Speed)
     \<and> pace_outcome act ''minSpeed'' (s_Min (Stats a Speed)) (s_Min (Stats a' Speed))
     \<and> pace_outcome act ''maxSpeed'' (s_Max (Stats a Speed)) (s_Max (Stats a' Speed))
     \<and> pace_outcome act ''weightedMeanSpeed'' (s_Average (Stats a Speed)) (s_Average (Stats a' Speed))"
proof -
  from fix_pace_min[of act a] obtain a1 where
    a1: "fix_pace_facet act ''minSpeed'' s_Min (\<lambda>v s. s\<lparr>s_Min := v\<rparr>) a = Inr a1"
        "s_Units (Stats a1 Speed) = s_Units (Stats a Speed)"
        "s_Max (Stats a1 Speed) = s_Max (Stats a Speed)"
        "s_Average (Stats a1 Speed) = s_Average (Stats a Speed)"
        "pace_outcome act ''minSpeed'' (s_Min (Stats a Speed)) (s_Min (Stats a1 Speed))"
    unfolding pace_outcome_def by blast
  from fix_pace_max[of act a1] obtain a2 where
    a2: "fix_pace_facet act ''maxSpeed'' s_Max (\<lambda>v s. s\<lparr>s_Max := v\<rparr>) a1 = Inr a2"
        "s_Units (Stats a2 Speed) = s_Units (Stats a1 Speed)"
        "s_Min (Stats a2 Speed) = s_Min (Stats a1 Speed)"
        "s_Average (Stats a2 Speed) = s_Average (Stats a1 Speed)"
        "pace_outcome act ''maxSpeed'' (s_Max (Stats a1 Speed)) (s_Max (Stats a2 Speed))"
    unfolding pace_outcome_def by blast
  from fix_pace_avg[of act a2] obtain a3 where
    a3: "fix_pace_facet act ''weightedMeanSpeed'' s_Average (\<lambda>v s. s\<lparr>s_Average := v\<rparr>) a2 = Inr a3"
        "s_Units (Stats a3 Speed) = s_Units (Stats a2 Speed)"
        "s_Min (Stats a3 Speed) = s_Min (Stats a2 Speed)"
        "s_Max (Stats a3 Speed) = s_Max (Stats a2 Speed)"
        "pace_outcome act ''weightedMeanSpeed'' (s_Average (Stats a2 Speed)) (s_Average (Stats a3 Speed))"
    unfolding pace_outcome_def by blast
  have "fix_pace act a = Inr a3"
    using a1(1) a2(1) a3(1) by (simp add: fix_pace_def and_then_def)
  with a1 a2 a3 show ?thesis by simp
qed

lemma mapStat_source_units:
  assumes "mapStat h act gcKey statKey ty True a0 = Inr a1"
    and "measures act gcKey = Some g" and "\<not> isinf (f_value g)"
  shows "\<exists>u st. unit_of (f_uom g) = Inr u
           \<and> stat_update h (Stats a0 statKey) (new_stat u ty (f_value g)) = Inr st
           \<and> asUnits h st u = Inr (Stats a1 statKey)"
  using assms
  by (auto simp: mapStat_def and_then_def split: sum.splits)

lemma mapStat_speed_step:
  assumes "maps_in_units h u" and "mapStat h act k Speed ty True a = Inr a'"
    and "speed_field_in act k u"
  shows "(case measures act k of
            None \<Rightarrow> a' = a
          | Some f \<Rightarrow>
              if isinf (f_value f) then a' = a
              else s_Units (Stats a' Speed) = u
                 \<and> facet_of ty (Stats a' Speed) = Some (f_value f)
                 \<and> (s_Units (Stats a Speed) = u \<longrightarrow>
                      (\<forall>ty'. ty' \<noteq> ty \<longrightarrow> facet_of ty' (Stats a' Speed) = facet_of ty' (Stats a Speed))))"
proof (cases "measures act k")
  case None
  with assms(2) show ?thesis by (simp add: mapStat_def)
next
  case (Some f)
  show ?thesis
  proof (cases "isinf (f_value f)")
    case True
    with Some assms(2) show ?thesis by (simp add: mapStat_def)
  next
    case False
    with Some assms(3) have u: "unit_of (f_uom f) = Inr u" by (simp add: speed_field_in_def)
    from mapStat_source_units [OF assms(2) Some False] u obtain st
      where st: "stat_update h (Stats a Speed) (new_stat u ty (f_value f)) = Inr st"
        "asUnits h st u = Inr (Stats a' Speed)" by auto
    from assms(1) st have "s_Units (Stats a' Speed) = u \<and> facet_of ty (Stats a' Speed) = Some (f_value f)
          \<and> (s_Units (Stats a Speed) = u \<longrightarrow>
               (\<forall>ty'. ty' \<noteq> ty \<longrightarrow> facet_of ty' (Stats a' Speed) = facet_of ty' (Stats a Speed)))"
      unfolding maps_in_units_def by blast
    with Some False show ?thesis by simp
  qed
qed

lemma mapStat_other_stat:
  "mapStat h act k statKey ty b a = Inr a' \<Longrightarrow> statKey \<noteq> Speed \<Longrightarrow> Stats a' Speed = Stats a Speed"
  by (auto simp: mapStat_def and_then_def split: option.splits sum.splits if_splits)

lemma mapStats_other_stats:
  "mapStats h act rules a = Inr a' \<Longrightarrow> \<forall>r \<in> set rules. fst (snd r) \<noteq> Speed \<Longrightarrow>
     Stats a' Speed = Stats a Speed"
proof (induction rules arbitrary: a)
  case Nil
  then show ?case by simp
next
  case (Cons r rules)
  obtain k sk ty b where r: "r = (k, sk, ty, b)" by (cases r)
  with Cons.prems obtain a1 where a1: "mapStat h act k sk ty b a = Inr a1"
    "mapStats h act rules a1 = Inr a'"
    by (auto simp: and_then_def split: sum.splits)
  from Cons.prems(2) r have "sk \<noteq> Speed" by simp
  from mapStat_other_stat [OF a1(1) this] Cons.IH [OF a1(2)] Cons.prems(2)
  show ?case by simp
qed

lemma mapStats_split:
  assumes "mapStats h act stat_rules a = Inr a'"
  shows "\<exists>m1 m2 m3.
           mapStat h act ''minSpeed'' Speed F_min True a = Inr m1
         \<and> mapStat h act ''maxSpeed'' Speed F_max True m1 = Inr m2
         \<and> mapStat h act ''weightedMeanSpeed'' Speed F_avg True m2 = Inr m3
         \<and> Stats a' Speed = Stats m3 Speed"
proof -
  have split: "stat_rules = [(''minSpeed'', Speed, F_min, True), (''maxSpeed'', Speed, F_max, True),
      (''weightedMeanSpeed'', Speed, F_avg, True)] @ drop 3 stat_rules"
    by (simp add: stat_rules_def)
  have rest: "\<forall>r \<in> set (drop 3 stat_rules). fst (snd r) \<noteq> Speed"
    by (simp add: stat_rules_def)
  from assms obtain m1 m2 m3 where
    m: "mapStat h act ''minSpeed'' Speed F_min True a = Inr m1"
       "mapStat h act ''maxSpeed'' Speed F_max True m1 = Inr m2"
       "mapStat h act ''weightedMeanSpeed'' Speed F_avg True m2 = Inr m3"
       "mapStats h act (drop 3 stat_rules) m3 = Inr a'"
    by (subst (asm) split) (auto simp: and_then_def split: sum.splits)
  from mapStats_other_stats [OF m(4) rest] m show ?thesis by blast
qed

lemma fix_Power_Speed: "Stats (fix_Power a) Speed = Stats a Speed"
  by (simp add: fix_Power_def Let_def split: option.splits)

lemma fix_RunCadence_Speed: "Stats (fix_RunCadence a) Speed = Stats a Speed"
  by (simp add: fix_RunCadence_def Let_def)

lemma build_activity_split:
  assumes "build_activity h act = Inr a"
  shows "\<exists>a5 a6 a7. mapStats h act stat_rules a5 = Inr a6
           \<and> Stats a7 Speed = Stats a6 Speed \<and> fix_pace act a7 = Inr a"
proof -
  from assms obtain a5 a6 where "mapStats h act stat_rules a5 = Inr a6"
    "fix_pace act (fix_RunCadence (fix_Power a6)) = Inr a"
    by (auto simp: build_activity_def and_then_def split: sum.splits)
  then show ?thesis
    using fix_Power_Speed fix_RunCadence_Speed by metis
qed


lemma mapStat_speed_sets:
  assumes "maps_in_units h u" and "mapStat h act k Speed ty True a = Inr a'"
    and "speed_field_in act k u" and "measures act k = Some f" and "\<not> isinf (f_value f)"
  shows "s_Units (Stats a' Speed) = u \<and> facet_of ty (Stats a' Speed) = Some (f_value f)"
  using mapStat_speed_step [OF assms(1,2,3)] assms(4,5) by simp

lemma mapStat_speed_keeps:
  assumes "maps_in_units h u" and "mapStat h act k Speed ty True a = Inr a'"
    and "speed_field_in act k u" and "s_Units (Stats a Speed) = u" and "ty0 \<noteq> ty"
  shows "s_Units (Stats a' Speed) = u
       \<and> facet_of ty0 (Stats a' Speed) = facet_of ty0 (Stats a Speed)"
  using mapStat_speed_step [OF assms(1,2,3)] assms(4,5)
  by (cases "measures act k") (auto split: if_splits)

lemma pace_outcome_mapped:
  assumes "pace_outcome act k (Some v) after" and "measures act k = Some f"
  shows "if CHR '':'' \<in> set (f_withUnitAbbr f) \<and> float_truthy v
         then \<exists>q. py_truediv 60 v = Inr q \<and> after = Some q
         else after = Some v"
  using assms by (auto simp: pace_outcome_def pace_applies_def facet_truthy_def)

text \<open>
  C5 (as amended). Let a record be normalized, with a host that keeps source units for the
  unit \<open>u\<close>, and let the speed fields of the record that are mapped all be in the unit
  \<open>u\<close>. Then for each of the fields minSpeed, maxSpeed and weightedMeanSpeed that is there
  with a finite value \<open>v\<close>, the speed statistic of the activity is in the unit \<open>u\<close> and its
  facet (min, max, average) holds \<open>60 / v\<close> when the display text of the field has a colon
  and \<open>v\<close> is not zero, and \<open>v\<close> itself otherwise: the reciprocal is taken of the value in
  the unit of the source.
\<close>

theorem pace_correction_in_source_units:
  assumes "build_activity h act = Inr a"
    and "maps_in_units h u"
    and "\<forall>k f. k \<in> {''minSpeed'', ''maxSpeed'', ''weightedMeanSpeed''}
           \<and> measures act k = Some f \<and> \<not> isinf (f_value f) \<longrightarrow> unit_of (f_uom f) = Inr u"
  shows "(\<forall>f. measures act ''minSpeed'' = Some f \<and> \<not> isinf (f_value f) \<longrightarrow>
            s_Units (Stats a Speed) = u
          \<and> (if CHR '':'' \<in> set (f_withUnitAbbr f) \<and> float_truthy (f_value f)
             then \<exists>q. py_truediv 60 (f_value f) = Inr q \<and> s_Min (Stats a Speed) = Some q
             else s_Min (Stats a Speed) = Some (f_value f)))
       \<and> (\<forall>f. measures act ''maxSpeed'' = Some f \<and> \<not> isinf (f_value f) \<longrightarrow>
            s_Units (Stats a Speed) = u
          \<and> (if CHR '':'' \<in> set (f_withUnitAbbr f) \<and> float_truthy (f_value f)
             then \<exists>q. py_truediv 60 (f_value f) = Inr q \<and> s_Max (Stats a Speed) = Some q
             else s_Max (Stats a Speed) = Some (f_value f)))
       \<and> (\<forall>f. measures act ''weightedMeanSpeed'' = Some f \<and> \<not> isinf (f_value f) \<longrightarrow>
            s_Units (Stats a Speed) = u
          \<and> (if CHR '':'' \<in> set (f_withUnitAbbr f) \<and> float_truthy (f_value f)
             then \<exists>q. py_truediv 60 (f_value f) = Inr q \<and> s_Average (Stats a Speed) = Some q
             else s_Average (Stats a Speed) = Some (f_value f)))"
proof -
  have in1: "speed_field_in act ''minSpeed'' u" and in2: "speed_field_in act ''maxSpeed'' u"
    and in3: "speed_field_in act ''weightedMeanSpeed'' u"
    using assms(3) by (auto simp: speed_field_in_def split: option.splits)
  from build_activity_split [OF assms(1)] obtain a5 a6 a7
    where maps: "mapStats h act stat_rules a5 = Inr a6"
      and a7: "Stats a7 Speed = Stats a6 Speed" and fx: "fix_pace act a7 = Inr a"
    by blast
  from mapStats_split [OF maps] obtain m1 m2 m3
    where m1: "mapStat h act ''minSpeed'' Speed F_min True a5 = Inr m1"
      and m2: "mapStat h act ''maxSpeed'' Speed F_max True m1 = Inr m2"
      and m3: "mapStat h act ''weightedMeanSpeed'' Speed F_avg True m2 = Inr m3"
      and a6: "Stats a6 Speed = Stats m3 Speed"
    by blast
  from fix_pace_effect [of act a7] fx a7 a6
  have units: "s_Units (Stats a Speed) = s_Units (Stats m3 Speed)"
    and out1: "pace_outcome act ''minSpeed'' (s_Min (Stats m3 Speed)) (s_Min (Stats a Speed))"
    and out2: "pace_outcome act ''maxSpeed'' (s_Max (Stats m3 Speed)) (s_Max (Stats a Speed))"
    and out3: "pace_outcome act ''weightedMeanSpeed'' (s_Average (Stats m3 Speed))
                 (s_Average (Stats a Speed))"
    by auto
  have c1: "s_Units (Stats a Speed) = u
          \<and> (if CHR '':'' \<in> set (f_withUnitAbbr f) \<and> float_truthy (f_value f)
             then \<exists>q. py_truediv 60 (f_value f) = Inr q \<and> s_Min (Stats a Speed) = Some q
             else s_Min (Stats a Speed) = Some (f_value f))"
    if f: "measures act ''minSpeed'' = Some f" "\<not> isinf (f_value f)" for f
  proof -
    from mapStat_speed_sets [OF assms(2) m1 in1 f]
    have s1: "s_Units (Stats m1 Speed) = u" "s_Min (Stats m1 Speed) = Some (f_value f)" by simp_all
    from mapStat_speed_keeps [OF assms(2) m2 in2 s1(1), of F_min] s1
    have s2: "s_Units (Stats m2 Speed) = u" "s_Min (Stats m2 Speed) = Some (f_value f)" by simp_all
    from mapStat_speed_keeps [OF assms(2) m3 in3 s2(1), of F_min] s2
    have s3: "s_Units (Stats m3 Speed) = u" "s_Min (Stats m3 Speed) = Some (f_value f)" by simp_all
    from pace_outcome_mapped [OF out1 [unfolded s3(2)] f(1)] units s3(1) show ?thesis by simp
  qed
  have c2: "s_Units (Stats a Speed) = u
          \<and> (if CHR '':'' \<in> set (f_withUnitAbbr f) \<and> float_truthy (f_value f)
             then \<exists>q. py_truediv 60 (f_value f) = Inr q \<and> s_Max (Stats a Speed) = Some q
             else s_Max (Stats a Speed) = Some (f_value f))"
    if f: "measures act ''maxSpeed'' = Some f" "\<not> isinf (f_value f)" for f
  proof -
    from mapStat_speed_sets [OF assms(2) m2 in2 f]
    have s2: "s_Units (Stats m2 Speed) = u" "s_Max (Stats m2 Speed) = Some (f_value f)" by simp_all
    from mapStat_speed_keeps [OF assms(2) m3 in3 s2(1), of F_max] s2
    have s3: "s_Units (Stats m3 Speed) = u" "s_Max (Stats m3 Speed) = Some (f_value f)" by simp_all
    from pace_outcome_mapped [OF out2 [unfolded s3(2)] f(1)] units s3(1) show ?thesis by simp
  qed
  have c3: "s_Units (Stats a Speed) = u
          \<and> (if CHR '':'' \<in> set (f_withUnitAbbr f) \<and> float_truthy (f_value f)
             then \<exists>q. py_truediv 60 (f_value f) = Inr q \<and> s_Average (Stats a Speed) = Some q
             else s_Average (Stats a Speed) = Some (f_value f))"
    if f: "measures act ''weightedMeanSpeed'' = Some f" "\<not> isinf (f_value f)" for f
  proof -
    from mapStat_speed_sets [OF assms(2) m3 in3 f]
    have s3: "s_Units (Stats m3 Speed) = u" "s_Average (Stats m3 Speed) = Some (f_value f)"
      by simp_all
    from pace_outcome_mapped [OF out3 [unfolded s3(2)] f(1)] units s3(1) show ?thesis by simp
  qed
  from c1 c2 c3 show ?thesis by blast
qed

lemma plain_host_maps_in_units: "maps_in_units plain_host MilesPerHour"
  unfolding maps_in_units_def
proof (intro allI impI)
  fix s ty v st s'
  assume up: "stat_update plain_host s (new_stat MilesPerHour ty v) = Inr st"
    and as: "asUnits plain_host st MilesPerHour = Inr s'"
  have sc: "py_scale (15625 / 25146) (py_scale (25146 / 15625) x) = x" for x
    by (cases x) simp_all
  show "s_Units s' = MilesPerHour \<and> facet_of ty s' = Some v
          \<and> (s_Units s = MilesPerHour \<longrightarrow> (\<forall>ty'. ty' \<noteq> ty \<longrightarrow> facet_of ty' s' = facet_of ty' s))"
  proof (cases "s_Units s = MilesPerHour")
    case True
    with up as have s': "s' = st"
      and st: "st = \<lparr>s_Units = MilesPerHour,
            s_Value = first_set (s_Value (new_stat MilesPerHour ty v)) (s_Value s),
            s_Max = first_set (s_Max (new_stat MilesPerHour ty v)) (s_Max s),
            s_Min = first_set (s_Min (new_stat MilesPerHour ty v)) (s_Min s),
            s_Average = first_set (s_Average (new_stat MilesPerHour ty v)) (s_Average s),
            s_Gain = first_set (s_Gain (new_stat MilesPerHour ty v)) (s_Gain s),
            s_Loss = first_set (s_Loss (new_stat MilesPerHour ty v)) (s_Loss s)\<rparr>"
      by (auto simp: plain_host_def plain_update_def plain_asUnits_def and_then_def new_stat_def
          split: if_splits)
    have own: "facet_of ty s' = Some v"
      unfolding s' st by (cases ty) (simp_all add: new_stat_def first_set_def)
    have others: "facet_of ty' s' = facet_of ty' s" if "ty' \<noteq> ty" for ty'
      using that unfolding s' st
      by (cases ty; cases ty') (simp_all add: new_stat_def first_set_def)
    from own others s' st show ?thesis by simp
  next
    case False
    with up as show ?thesis
      by (cases ty)
         (auto simp: plain_host_def plain_update_def plain_asUnits_def and_then_def new_stat_def
            first_set_def scale_stat_def sc split: if_splits)
  qed
qed


lemma run_record_speed_fields:
  "\<forall>k f. k \<in> {''minSpeed'', ''maxSpeed'', ''weightedMeanSpeed''}
      \<and> measures run_record k = Some f \<and> \<not> isinf (f_value f) \<longrightarrow>
      unit_of (f_uom f) = Inr MilesPerHour"
  by (auto simp: run_record_def field_def unit_of_def unitMap_def)

lemma run_record_end_to_end:
  "\<exists>a. build_activity plain_host run_record = Inr a
     \<and> s_Max (Stats a Speed) = Some (Fin (600 / 109))
     \<and> s_Average (Stats a Speed) = Some (Fin 0)
     \<and> s_Units (Stats a Speed) = MilesPerHour"
  by (simp add: build_activity_def and_then_def set_Stationary_def stationary_test_def run_record_def
    plain_host_def blank_activity_def set_TZ_def set_Name_def set_times_def set_Distance_def
    set_MovingTime_def stat_rules_def mapStat_def fix_Power_def fix_RunCadence_def fix_pace_def
    fix_pace_facet_def field_def unit_of_def unitMap_def new_stat_def plain_update_def
    plain_asUnits_def blank_stat_def default_units_def first_set_def scale_stat_def isinf_def
    facet_truthy_def float_truthy_def round_half_even_def ascii_space_def)

theorem pace_correction_in_source_units_witness:
  "maps_in_units plain_host MilesPerHour
   \<and> measures run_record ''maxSpeed'' = Some (field (109 / 10) ''mph'' ''5:30 min/mi'')
   \<and> measures run_record ''weightedMeanSpeed'' = Some (field 0 ''mph'' ''--:-- min/mi'')
   \<and> (\<exists>a. build_activity plain_host run_record = Inr a
         \<and> s_Units (Stats a Speed) = MilesPerHour
         \<and> s_Max (Stats a Speed) = Some (Fin (600 / 109))
         \<and> s_Average (Stats a Speed) = Some (Fin 0))
   \<and> \<bar>600 / 109 - 55 / 10\<bar> < (1 / 100 :: real)"
proof -
  have mx: "measures run_record ''maxSpeed'' = Some (field (109 / 10) ''mph'' ''5:30 min/mi'')"
    and av: "measures run_record ''weightedMeanSpeed'' = Some (field 0 ''mph'' ''--:-- min/mi'')"
    by (simp_all add: run_record_def)
  from run_record_end_to_end obtain a where a: "build_activity plain_host run_record = Inr a"
    by blast
  note inst = pace_correction_in_source_units
    [OF a plain_host_maps_in_units run_record_speed_fields]
  from inst mx have "s_Units (Stats a Speed) = MilesPerHour
      \<and> s_Max (Stats a Speed) = Some (Fin (600 / 109))"
    by (auto simp: field_def isinf_def float_truthy_def)
  moreover from inst av have "s_Average (Stats a Speed) = Some (Fin 0)"
    by (auto simp: field_def isinf_def float_truthy_def)
  ultimately have "\<exists>a. build_activity plain_host run_record = Inr a
         \<and> s_Units (Stats a Speed) = MilesPerHour
         \<and> s_Max (Stats a Speed) = Some (Fin (600 / 109))
         \<and> s_Average (Stats a Speed) = Some (Fin 0)"
    using a by blast
  with plain_host_maps_in_units mx av show ?thesis by simp
qed

text \<open>
  C5 as stated fails when the speed fields of a record are in different units. The minimum
  is 6 km/h shown as a pace and the maximum is in miles per hour: the statistic ends in miles
  per hour and the reciprocal is taken of the minimum converted to miles per hour, which
  gives 16.09344 and not \<open>60 / 6\<close>.
\<close>

theorem pace_correction_mixed_units:
  "measures mixed_units_record ''minSpeed'' = Some (field 6 ''kph'' ''10:00 min/km'')
   \<and> measures mixed_units_record ''maxSpeed'' = Some (field 10 ''mph'' ''6:00 min/mi'')
   \<and> py_truediv 60 (Fin 6) = Inr (Fin 10)
   \<and> map_sum id (\<lambda>a. (s_Units (Stats a Speed), s_Min (Stats a Speed)))
        (build_activity plain_host mixed_units_record)
      = Inr (MilesPerHour, Some (Fin (50292 / 3125)))"
  by (simp add: build_activity_def and_then_def set_Stationary_def stationary_test_def run_record_def
    mixed_units_record_def
    plain_host_def blank_activity_def set_TZ_def set_Name_def set_times_def set_Distance_def
    set_MovingTime_def stat_rules_def mapStat_def fix_Power_def fix_RunCadence_def fix_pace_def
    fix_pace_facet_def field_def unit_of_def unitMap_def new_stat_def plain_update_def
    plain_asUnits_def blank_stat_def default_units_def first_set_def scale_stat_def isinf_def
    facet_truthy_def float_truthy_def round_half_even_def ascii_space_def)

text \<open>
  C10. Lines 218 to 226 never raise, so they never divide by zero: a facet is divided only
  when it is there and is not zero. A facet that is zero stays zero, in the units the
  statistic had, and is not unset.
\<close>

theorem pace_never_divides_by_zero:
  "\<exists>a'. fix_pace act a = Inr a'
     \<and> s_Units (Stats a' Speed) = s_Units (Stats a Speed)
     \<and> (s_Min (Stats a Speed) = Some (Fin 0) \<longrightarrow> s_Min (Stats a' Speed) = Some (Fin 0))
     \<and> (s_Max (Stats a Speed) = Some (Fin 0) \<longrightarrow> s_Max (Stats a' Speed) = Some (Fin 0))
     \<and> (s_Average (Stats a Speed) = Some (Fin 0) \<longrightarrow> s_Average (Stats a' Speed) = Some (Fin 0))
     \<and> (s_Min (Stats a' Speed) \<noteq> s_Min (Stats a Speed) \<longrightarrow> facet_truthy (s_Min (Stats a Speed)))
     \<and> (s_Max (Stats a' Speed) \<noteq> s_Max (Stats a Speed) \<longrightarrow> facet_truthy (s_Max (Stats a Speed)))
     \<and> (s_Average (Stats a' Speed) \<noteq> s_Average (Stats a Speed) \<longrightarrow>
          facet_truthy (s_Average (Stats a Speed)))"
  using fix_pace_effect[of act a]
  by (auto simp: pace_outcome_def pace_applies_def facet_truthy_def float_truthy_def
      split: option.splits)

theorem pace_never_divides_by_zero_witness:
  "s_Average (Stats mapped_run Speed) = Some (Fin 0)
   \<and> pace_applies run_record ''maxSpeed'' (s_Max (Stats mapped_run Speed))
   \<and> (\<exists>a'. fix_pace run_record mapped_run = Inr a'
         \<and> s_Average (Stats a' Speed) = Some (Fin 0)
         \<and> s_Units (Stats a' Speed) = MilesPerHour)"
proof -
  have z: "s_Average (Stats mapped_run Speed) = Some (Fin 0)"
    and u: "s_Units (Stats mapped_run Speed) = MilesPerHour"
    by (simp_all add: mapped_run_def)
  have p: "pace_applies run_record ''maxSpeed'' (s_Max (Stats mapped_run Speed))"
    by (simp add: pace_applies_def run_record_def mapped_run_def field_def facet_truthy_def
        float_truthy_def)
  from pace_never_divides_by_zero [of run_record mapped_run] z u
  have "\<exists>a'. fix_pace run_record mapped_run = Inr a'
         \<and> s_Average (Stats a' Speed) = Some (Fin 0)
         \<and> s_Units (Stats a' Speed) = MilesPerHour"
    by auto
  with z p show ?thesis by simp
qed

section \<open>Facts about the concrete inputs\<close>

lemma plain_host_sel:
  "Decrypt plain_host blob = blob"
  "EnsureTZ plain_host a = Inr a"
  "FITIO_Dump plain_host a = Inr ''FIT''"
  "stats_update plain_host mine theirs = Inr theirs"
  "TCXIO_Parse plain_host content a =
     (if content = [] then Inl (ValueError ''empty'')
      else Inr (a\<lparr>Laps := [\<lparr>l_Stats = (\<lambda>k. blank_stat (default_units k)), l_payload = content\<rparr>]\<rparr>))"
  by (simp_all add: plain_host_def)

lemma echo_remote_sel:
  "signin_get (echo_remote page) = [(''JSESSIONID'', ''A1'')]"
  "signin_post (echo_remote page) email password c = 302"
  "tcx_get (echo_remote page) c i = ''<tcx/>''"
  "upload_post (echo_remote page) c n f = [77]"
  "name_post (echo_remote page) c i v = Some v"
  "description_post (echo_remote page) c i v = Some v"
  "type_post (echo_remote page) c i v = Some v"
  "activities_get (echo_remote page) c start limit =
     (if start = 0 then \<lparr>r_activities = Some page, r_totalPages = 1\<rparr>
      else \<lparr>r_activities = None, r_totalPages = 1\<rparr>)"
  by (simp_all add: echo_remote_def)

lemma login_echo_remote:
  "get_cookies plain_host (echo_remote page) 5000 stale_cache (Some service_record) None None
     = (Inr [(''JSESSIONID'', ''A1'')],
        cache_Set 5000 stale_cache ''user1'' [(''JSESSIONID'', ''A1'')])"
  by (simp add: get_cookies_def cache_Get_def stale_cache_def service_record_def echo_remote_def
      plain_host_def Let_def)

lemma login_accepted:
  assumes "cache_Get now cache (ExternalID sr) = (None, cache)"
    and "signin_post rem (Some (Decrypt h (ExtendedAuthorization_Email sr)))
           (Some (Decrypt h (ExtendedAuthorization_Password sr))) (signin_get rem) = 302"
  shows "get_cookies h rem now cache (Some sr) None None
           = (Inr (signin_get rem), cache_Set now cache (ExternalID sr) (signin_get rem))"
  using assms by (simp add: get_cookies_def Let_def)

lemma stale_cache_miss:
  "cache_Get 5000 stale_cache (ExternalID service_record) = (None, stale_cache)"
  by (simp add: cache_Get_def stale_cache_def service_record_def)

lemma listed_hike_sel:
  "UID listed_hike = Some ''tCol du Lautaret''"
  "Name listed_hike = Some ''Col du Lautaret''"
  "Notes listed_hike = Some ''Windy''"
  "Type listed_hike = Hiking"
  by (simp_all add: listed_hike_def blank_activity_def)

section \<open>Stationary flag\<close>

text \<open>
  C4 (a defect of the source). In \<open>run_record\<close> the begin and end coordinates are equal
  on both axes, each read into an object of its own: line 145 compares the objects with
  \<^verbatim>\<open>is\<close> and answers that the activity moved. In \<open>no_longitude_record\<close> the
  longitudes are missing and the answer is the same, since only the latitudes are looked for.
\<close>

theorem stationary_test_equal_coordinates:
  "map_option c_value (beginLatitude run_record) = map_option c_value (endLatitude run_record)
   \<and> map_option c_value (beginLongitude run_record) = map_option c_value (endLongitude run_record)
   \<and> stationary_test run_record = Inr False
   \<and> beginLongitude no_longitude_record = None
   \<and> endLongitude no_longitude_record = None
   \<and> stationary_test no_longitude_record = Inr False"
  by (simp add: stationary_test_def run_record_def no_longitude_record_def)

section \<open>Detail fetch: one lap\<close>

text \<open>
  C7. When \<^verbatim>\<open>DownloadActivity\<close> returns an activity, the detail was parsed; if the
  parsed activity has exactly one lap, the statistics of the result are the host's update
  of the lap's statistics with the activity's, and the one lap of the result holds these
  same statistics; with no lap or several the parsed activity is returned as it is.
\<close>

theorem DownloadActivity_single_lap:
  assumes "DownloadActivity h rem now cache serviceRecord activity = (Inr a, cache')"
  shows "\<exists>activityID cookies parsed.
           ServiceData activity = Some activityID
         \<and> get_cookies h rem now cache (Some serviceRecord) None None = (Inr cookies, cache')
         \<and> TCXIO_Parse h (tcx_get rem cookies activityID) activity = Inr parsed
         \<and> (length (Laps parsed) = 1 \<longrightarrow>
               stats_update h (l_Stats (Laps parsed ! 0)) (Stats parsed) = Inr (Stats a)
             \<and> Laps a = [(Laps parsed ! 0)\<lparr>l_Stats := Stats a\<rparr>]
             \<and> l_Stats (Laps a ! 0) = Stats a
             \<and> a = parsed\<lparr>Laps := Laps a, Stats := Stats a\<rparr>)
         \<and> (length (Laps parsed) \<noteq> 1 \<longrightarrow> a = parsed)"
  using assms
  by (auto simp: DownloadActivity_def
      split: option.splits sum.splits prod.splits error.splits list.splits)

lemma DownloadActivity_listed_hike:
  "\<exists>a. DownloadActivity plain_host (echo_remote []) 5000 stale_cache service_record listed_hike
          = (Inr a, cache_Set 5000 stale_cache ''user1'' [(''JSESSIONID'', ''A1'')])
       \<and> length (Laps a) = 1 \<and> Stats a = Stats listed_hike"
  by (simp add: DownloadActivity_def login_echo_remote plain_host_sel echo_remote_sel
      listed_hike_def)

theorem DownloadActivity_single_lap_witness:
  "\<exists>a. DownloadActivity plain_host (echo_remote []) 5000 stale_cache service_record listed_hike
          = (Inr a, cache_Set 5000 stale_cache ''user1'' [(''JSESSIONID'', ''A1'')])
       \<and> length (Laps a) = 1
       \<and> l_Stats (Laps a ! 0) = Stats a
       \<and> Stats a = Stats listed_hike
       \<and> s_Value (l_Stats (Laps a ! 0) Distance) = Some (Fin 7200)"
proof -
  from DownloadActivity_listed_hike obtain a
    where a: "DownloadActivity plain_host (echo_remote []) 5000 stale_cache service_record listed_hike
          = (Inr a, cache_Set 5000 stale_cache ''user1'' [(''JSESSIONID'', ''A1'')])"
      and l: "length (Laps a) = 1" and s: "Stats a = Stats listed_hike"
    by blast
  from DownloadActivity_single_lap [OF a] obtain parsed
    where p: "length (Laps parsed) = 1 \<longrightarrow> l_Stats (Laps a ! 0) = Stats a"
             "length (Laps parsed) \<noteq> 1 \<longrightarrow> a = parsed"
    by blast
  from p l have eq: "l_Stats (Laps a ! 0) = Stats a"
    by (cases "length (Laps parsed) = 1") auto
  with s have "s_Value (l_Stats (Laps a ! 0) Distance) = Some (Fin 7200)"
    by (simp add: listed_hike_def new_stat_def)
  with a l s eq show ?thesis by blast
qed

section \<open>Login and the session cache\<close>

text \<open>
  C9 as stated fails. The cache holds an empty cookie jar for the account, not yet
  expired. The lookup of line 86 returns the jar, which is false in \<^verbatim>\<open>if cached:\<close>, and
  extends its expiry; the login then answers 503 and the call raises, with the expiry of
  the entry moved from 6000 to 6800.
\<close>

theorem get_cookies_refreshes_empty_jar:
  "empty_jar_cache ''user1'' = Some ([], 6000)
   \<and> fst (get_cookies plain_host ((echo_remote [])\<lparr>signin_post := (\<lambda>e p c. 503)\<rparr>) 5000
        empty_jar_cache (Some service_record) None None)
      = Inl (APIException ''Remote API failure'' False)
   \<and> snd (get_cookies plain_host ((echo_remote [])\<lparr>signin_post := (\<lambda>e p c. 503)\<rparr>) 5000
        empty_jar_cache (Some service_record) None None) ''user1''
      = Some ([], 6800)"
  by (simp add: get_cookies_def cache_Get_def empty_jar_cache_def service_record_def
      echo_remote_def lifetime_def Let_def)

text \<open>
  C9 (as amended). When \<^verbatim>\<open>_get_cookies\<close> raises, no entry of the session cache has been
  written: every account has the cookie set it had. The cache is the one the lookup of
  line 86 left: the cache of before, or - when the lookup found an empty jar that had not
  expired - the cache of before with the expiry of that one entry extended; it is the cache
  of before whenever the lookup found nothing. Conversely, if some account's cookie set has
  changed, the call was made for a record, the login answered 302 and the call returned the
  login's cookies.
\<close>

theorem get_cookies_failure_writes_no_entry:
  assumes "get_cookies h rem now cache record email password = (res, cache')"
  shows "((\<exists>e. res = Inl e) \<longrightarrow>
            (\<forall>pk. map_option fst (cache' pk) = map_option fst (cache pk))
          \<and> (cache' = cache
              \<or> (\<exists>r expiry. record = Some r \<and> cache (ExternalID r) = Some ([], expiry)
                    \<and> now \<le> expiry
                    \<and> cache' = cache(ExternalID r \<mapsto> ([], now + lifetime))))
          \<and> cache' = (case record of
                        None \<Rightarrow> cache
                      | Some r \<Rightarrow> snd (cache_Get now cache (ExternalID r)))
          \<and> ((case record of
                 None \<Rightarrow> True
               | Some r \<Rightarrow> fst (cache_Get now cache (ExternalID r)) = None)
               \<longrightarrow> cache' = cache))
       \<and> ((\<exists>pk. map_option fst (cache' pk) \<noteq> map_option fst (cache pk)) \<longrightarrow>
            (\<exists>r. record = Some r \<and> res = Inr (signin_get rem)
               \<and> signin_post rem (Some (Decrypt h (ExtendedAuthorization_Email r)))
                    (Some (Decrypt h (ExtendedAuthorization_Password r))) (signin_get rem) = 302))"
  using assms
  apply (cases "record")
   apply (auto simp: get_cookies_def cache_Get_def cache_Set_def Let_def
      split: option.splits prod.splits list.splits if_splits)
  done

lemma login_refused:
  "get_cookies plain_host ((echo_remote [])\<lparr>signin_post := (\<lambda>e p c. 503)\<rparr>) 5000 stale_cache
       (Some service_record) None None
     = (Inl (APIException ''Remote API failure'' False), stale_cache)"
  by (simp add: get_cookies_def cache_Get_def stale_cache_def service_record_def echo_remote_def
      plain_host_def Let_def)

theorem get_cookies_failure_writes_no_entry_witness:
  "get_cookies plain_host ((echo_remote [])\<lparr>signin_post := (\<lambda>e p c. 503)\<rparr>) 5000 stale_cache
       (Some service_record) None None
     = (Inl (APIException ''Remote API failure'' False), stale_cache)
   \<and> fst (cache_Get 5000 stale_cache (ExternalID service_record)) = None
   \<and> (\<forall>pk. map_option fst (stale_cache pk) = map_option fst (stale_cache pk))
   \<and> fst (get_cookies plain_host (echo_remote []) 5000 stale_cache (Some service_record) None None)
       = Inr (signin_get (echo_remote []))
   \<and> signin_post (echo_remote []) (Some ''runner@example.org'') (Some ''secret'')
        (signin_get (echo_remote [])) = 302"
proof -
  have miss: "fst (cache_Get 5000 stale_cache (ExternalID service_record)) = None"
    by (simp add: cache_Get_def stale_cache_def service_record_def)
  from get_cookies_failure_writes_no_entry [OF login_refused] miss
  have kept: "\<forall>pk. map_option fst (stale_cache pk) = map_option fst (stale_cache pk)"
    by blast
  have changed: "map_option fst (cache_Set 5000 stale_cache ''user1'' [(''JSESSIONID'', ''A1'')] ''user1'')
      \<noteq> map_option fst (stale_cache ''user1'')"
    by (simp add: cache_Set_def stale_cache_def)
  from get_cookies_failure_writes_no_entry [OF login_echo_remote [of "[]"]] changed
  have "\<exists>r. Some service_record = Some r
            \<and> Inr [(''JSESSIONID'', ''A1'')] = Inr (signin_get (echo_remote []))
            \<and> signin_post (echo_remote []) (Some (Decrypt plain_host (ExtendedAuthorization_Email r)))
                 (Some (Decrypt plain_host (ExtendedAuthorization_Password r)))
                 (signin_get (echo_remote [])) = 302"
    by blast
  then have ok: "signin_post (echo_remote []) (Some ''runner@example.org'') (Some ''secret'')
        (signin_get (echo_remote [])) = 302"
    by (auto simp: plain_host_sel service_record_def)
  have ret: "fst (get_cookies plain_host (echo_remote []) 5000 stale_cache (Some service_record) None None)
       = Inr (signin_get (echo_remote []))"
    by (simp add: login_echo_remote echo_remote_sel)
  from login_refused miss kept ok ret show ?thesis by blast
qed

section \<open>Upload\<close>

lemma name_step_sent:
  "name_step rem cookies actid activity sent = (r, sent') \<Longrightarrow>
     \<exists>new. sent' = sent @ new \<and> (\<forall>q \<in> set new. request_id q = Some actid)
       \<and> (\<forall>m b. r \<noteq> Inl (APIException m b))"
  by (auto simp: name_step_def split: option.splits if_splits)

lemma notes_step_sent:
  "notes_step rem cookies actid activity sent = (r, sent') \<Longrightarrow>
     \<exists>new. sent' = sent @ new \<and> (\<forall>q \<in> set new. request_id q = Some actid)
       \<and> (\<forall>m b. r \<noteq> Inl (APIException m b))"
  by (auto simp: notes_step_def split: option.splits if_splits)

lemma type_step_sent:
  "type_step rem cookies actid activity sent = (r, sent') \<Longrightarrow>
     \<exists>new. sent' = sent @ new \<and> (\<forall>q \<in> set new. request_id q = Some actid)
       \<and> (\<forall>m b. r \<noteq> Inl (APIException m b))"
  unfolding type_step_def
  by (auto split: option.splits if_splits list.splits)

lemma follow_up_sent:
  assumes "follow_up rem cookies actid activity sent = (r, sent')"
  shows "\<exists>new. sent' = sent @ new \<and> (\<forall>q \<in> set new. request_id q = Some actid)
       \<and> (\<forall>m b. r \<noteq> Inl (APIException m b))"
proof -
  obtain r1 s1 where 1: "name_step rem cookies actid activity sent = (r1, s1)" by fastforce
  from name_step_sent[OF 1] obtain n1 where n1: "s1 = sent @ n1" "\<forall>q \<in> set n1. request_id q = Some actid"
    "\<forall>m b. r1 \<noteq> Inl (APIException m b)" by blast
  show ?thesis
  proof (cases r1)
    case (Inl e)
    with assms 1 n1 show ?thesis by (auto simp: follow_up_def)
  next
    case (Inr u)
    obtain r2 s2 where 2: "notes_step rem cookies actid activity s1 = (r2, s2)" by fastforce
    from notes_step_sent[OF 2] obtain n2 where n2: "s2 = s1 @ n2" "\<forall>q \<in> set n2. request_id q = Some actid"
      "\<forall>m b. r2 \<noteq> Inl (APIException m b)" by blast
    show ?thesis
    proof (cases r2)
      case (Inl e)
      with assms 1 2 n1 n2 \<open>r1 = Inr u\<close> show ?thesis by (auto simp: follow_up_def)
    next
      case (Inr u2)
      with assms 1 2 \<open>r1 = Inr u\<close> have 3: "type_step rem cookies actid activity s2 = (r, sent')"
        by (simp add: follow_up_def)
      from type_step_sent[OF 3] obtain n3 where n3: "sent' = s2 @ n3" "\<forall>q \<in> set n3. request_id q = Some actid"
        "\<forall>m b. r \<noteq> Inl (APIException m b)" by blast
      with n1 n2 show ?thesis by auto
    qed
  qed
qed

text \<open>
  C6. Once the login has given cookies and the file has been posted:
  with no entry in \<^verbatim>\<open>successes\<close> the upload raises \<^verbatim>\<open>APIException\<close> and sends
  nothing more, with more than one entry likewise, and with exactly one entry it goes on to
  the follow-up steps, does not raise \<^verbatim>\<open>APIException\<close>, and every later request
  carries the \<^verbatim>\<open>internalId\<close> of that entry.
\<close>

theorem UploadActivity_one_success:
  assumes "EnsureTZ h activity0 = Inr activity"
    and "FITIO_Dump h activity = Inr fit_file"
    and "UID activity = Some uid"
    and "get_cookies h rem now cache (Some serviceRecord) None None = (Inr cookies, cache')"
    and "upload_post rem cookies (upload_file_name pid uid) fit_file = successes"
    and "first = Upload (upload_file_name pid uid) fit_file"
  shows "(length successes = 0 \<longrightarrow>
            UploadActivity h rem now pid cache serviceRecord activity0 =
              (Inl (APIException ''Unable to upload activity'' False), [first], cache'))
       \<and> (length successes > 1 \<longrightarrow>
            UploadActivity h rem now pid cache serviceRecord activity0 =
              (Inl (APIException ''Uploaded succeeded, resulting in too many activities'' False),
               [first], cache'))
       \<and> (length successes = 1 \<longrightarrow>
            (\<exists>r later.
               UploadActivity h rem now pid cache serviceRecord activity0 = (r, first # later, cache')
             \<and> (r, first # later) = follow_up rem cookies (successes ! 0) activity [first]
             \<and> (\<forall>m b. r \<noteq> Inl (APIException m b))
             \<and> (\<forall>q \<in> set later. request_id q = Some (successes ! 0))))"
proof (intro conjI impI)
  assume "length successes = 0"
  with assms show "UploadActivity h rem now pid cache serviceRecord activity0 =
              (Inl (APIException ''Unable to upload activity'' False), [first], cache')"
    by (simp add: UploadActivity_def)
next
  assume "length successes > 1"
  then obtain x y zs where "successes = x # y # zs"
    by (cases successes; cases "tl successes") auto
  with assms show "UploadActivity h rem now pid cache serviceRecord activity0 =
              (Inl (APIException ''Uploaded succeeded, resulting in too many activities'' False),
               [first], cache')"
    by (simp add: UploadActivity_def)
next
  assume "length successes = 1"
  then obtain actid where s: "successes = [actid]"
    by (cases successes) auto
  obtain r sent where f: "follow_up rem cookies actid activity [first] = (r, sent)" by fastforce
  from follow_up_sent[OF f] obtain later where l: "sent = [first] @ later"
    "\<forall>q \<in> set later. request_id q = Some actid" "\<forall>m b. r \<noteq> Inl (APIException m b)" by blast
  have "UploadActivity h rem now pid cache serviceRecord activity0 = (r, first # later, cache')"
    using assms s f l by (simp add: UploadActivity_def)
  with s f l show "\<exists>r later.
               UploadActivity h rem now pid cache serviceRecord activity0 = (r, first # later, cache')
             \<and> (r, first # later) = follow_up rem cookies (successes ! 0) activity [first]
             \<and> (\<forall>m b. r \<noteq> Inl (APIException m b))
             \<and> (\<forall>q \<in> set later. request_id q = Some (successes ! 0))"
    by auto
qed

lemma follow_up_listed_hike:
  "follow_up (echo_remote []) c 77 listed_hike [u]
     = (Inr (), [u, SetName 77 ''Col du Lautaret'', SetDescription 77 ''Windy'', SetType 77 ''hiking''])"
  by (simp add: follow_up_def name_step_def notes_step_def type_step_def listed_hike_sel
      echo_remote_sel reverseActivityMappings_def)

theorem UploadActivity_one_success_witness:
  "UploadActivity plain_host ((echo_remote [])\<lparr>upload_post := (\<lambda>c n f. [])\<rparr>) 5000 4711 stale_cache
       service_record listed_hike =
     (Inl (APIException ''Unable to upload activity'' False),
      [Upload (upload_file_name 4711 ''tCol du Lautaret'') ''FIT''],
      cache_Set 5000 stale_cache ''user1'' [(''JSESSIONID'', ''A1'')])
   \<and> UploadActivity plain_host ((echo_remote [])\<lparr>upload_post := (\<lambda>c n f. [77, 78])\<rparr>) 5000 4711
       stale_cache service_record listed_hike =
     (Inl (APIException ''Uploaded succeeded, resulting in too many activities'' False),
      [Upload (upload_file_name 4711 ''tCol du Lautaret'') ''FIT''],
      cache_Set 5000 stale_cache ''user1'' [(''JSESSIONID'', ''A1'')])
   \<and> UploadActivity plain_host (echo_remote []) 5000 4711 stale_cache service_record listed_hike =
     (Inr (),
      [Upload (upload_file_name 4711 ''tCol du Lautaret'') ''FIT'',
       SetName 77 ''Col du Lautaret'', SetDescription 77 ''Windy'', SetType 77 ''hiking''],
      cache_Set 5000 stale_cache ''user1'' [(''JSESSIONID'', ''A1'')])"
proof -
  let ?first = "Upload (upload_file_name 4711 ''tCol du Lautaret'') ''FIT''"
  let ?c = "cache_Set 5000 stale_cache ''user1'' [(''JSESSIONID'', ''A1'')]"
  have login: "get_cookies plain_host ((echo_remote [])\<lparr>upload_post := up\<rparr>) 5000 stale_cache
      (Some service_record) None None = (Inr [(''JSESSIONID'', ''A1'')], ?c)" for up
    using login_accepted [OF stale_cache_miss, of "(echo_remote [])\<lparr>upload_post := up\<rparr>" plain_host]
    by (simp add: echo_remote_sel service_record_def)
  have none: "UploadActivity plain_host ((echo_remote [])\<lparr>upload_post := (\<lambda>c n f. [])\<rparr>) 5000 4711
      stale_cache service_record listed_hike =
     (Inl (APIException ''Unable to upload activity'' False), [?first], ?c)"
    using UploadActivity_one_success
      [OF plain_host_sel(2) plain_host_sel(3) listed_hike_sel(1) login refl refl,
        of "\<lambda>c n f. []" 4711]
    by simp
  have many: "UploadActivity plain_host ((echo_remote [])\<lparr>upload_post := (\<lambda>c n f. [77, 78])\<rparr>) 5000 4711
      stale_cache service_record listed_hike =
     (Inl (APIException ''Uploaded succeeded, resulting in too many activities'' False),
      [?first], ?c)"
    using UploadActivity_one_success
      [OF plain_host_sel(2) plain_host_sel(3) listed_hike_sel(1) login refl refl,
        of "\<lambda>c n f. [77, 78]" 4711]
    by simp
  have one: "UploadActivity plain_host (echo_remote []) 5000 4711 stale_cache service_record
      listed_hike =
     (Inr (), [?first, SetName 77 ''Col du Lautaret'', SetDescription 77 ''Windy'',
               SetType 77 ''hiking''], ?c)"
    using UploadActivity_one_success
      [OF plain_host_sel(2) plain_host_sel(3) listed_hike_sel(1) login_echo_remote [of "[]"]
        refl refl, of 4711]
    by (auto simp: echo_remote_sel follow_up_listed_hike)
  from none many one show ?thesis by simp
qed




section \<open>Listing: records of a page\<close>

lemma process_page_success:
  "process_page h hier acts (A, E) = Some (Inr (A', E')) \<Longrightarrow>
     E' = E @ map (\<lambda>act. APIExcludeActivity ''No distance'' (Some (activityId act)))
                (filter (\<lambda>act. measures act ''sumDistance'' = None) acts)
     \<and> (\<exists>new. A' = A @ new
          \<and> list_all2 (\<lambda>act a. normalize_activity h hier act = Some (Inr a))
               (filter (\<lambda>act. measures act ''sumDistance'' \<noteq> None) acts) new)"
proof (induction acts arbitrary: A E)
  case Nil
  then show ?case by simp
next
  case (Cons act rest)
  show ?case
  proof (cases "measures act ''sumDistance''")
    case None
    with Cons.prems have "process_page h hier rest
        (A, E @ [APIExcludeActivity ''No distance'' (Some (activityId act))]) = Some (Inr (A', E'))"
      by simp
    from Cons.IH[OF this] None show ?thesis by simp
  next
    case (Some d)
    with Cons.prems obtain a where a: "normalize_activity h hier act = Some (Inr a)"
      and r: "process_page h hier rest (A @ [a], E) = Some (Inr (A', E'))"
      by (auto split: option.splits sum.splits)
    from Cons.IH[OF r] Some a show ?thesis by auto
  qed
qed

lemma process_page_all_normalize:
  "(\<forall>act \<in> set acts. measures act ''sumDistance'' \<noteq> None \<longrightarrow>
       (\<exists>a. normalize_activity h hier act = Some (Inr a))) \<Longrightarrow>
     \<exists>A' E'. process_page h hier acts (A, E) = Some (Inr (A', E'))"
proof (induction acts arbitrary: A E)
  case Nil
  then show ?case by simp
next
  case (Cons act rest)
  then show ?case
    by (cases "measures act ''sumDistance''") auto
qed

lemma process_page_abort:
  "act \<in> set acts \<Longrightarrow> measures act ''sumDistance'' \<noteq> None \<Longrightarrow>
     normalize_activity h hier act = Some (Inl e) \<Longrightarrow>
     process_page h hier acts (A, E) \<noteq> Some (Inr r)"
proof (induction acts arbitrary: A E)
  case Nil
  then show ?case by simp
next
  case (Cons x rest)
  show ?case
  proof (cases "x = act")
    case True
    with Cons.prems show ?thesis by auto
  next
    case False
    with Cons.prems have "act \<in> set rest" by simp
    from Cons.IH[OF this Cons.prems(2,3)] show ?thesis
      by (auto split: option.splits sum.splits)
  qed
qed

lemma build_run_record:
  "\<exists>b. build_activity plain_host run_record = Inr b
     \<and> Name b = Some ''Morning run'' \<and> StartTime b = Some 1380000000"
  by (simp add: build_activity_def and_then_def set_Stationary_def stationary_test_def run_record_def
    plain_host_def blank_activity_def set_TZ_def set_Name_def set_times_def set_Distance_def
    set_MovingTime_def stat_rules_def mapStat_def fix_Power_def fix_RunCadence_def fix_pace_def
    fix_pace_facet_def field_def unit_of_def unitMap_def new_stat_def plain_update_def
    plain_asUnits_def blank_stat_def default_units_def first_set_def scale_stat_def isinf_def
    facet_truthy_def float_truthy_def round_half_even_def ascii_space_def)

lemma build_unknown_type_record:
  "\<exists>b. build_activity plain_host unknown_type_record = Inr b"
  by (simp add: build_activity_def and_then_def set_Stationary_def stationary_test_def run_record_def
    unknown_type_record_def
    plain_host_def blank_activity_def set_TZ_def set_Name_def set_times_def set_Distance_def
    set_MovingTime_def stat_rules_def mapStat_def fix_Power_def fix_RunCadence_def fix_pace_def
    fix_pace_facet_def field_def unit_of_def unitMap_def new_stat_def plain_update_def
    plain_asUnits_def blank_stat_def default_units_def first_set_def scale_stat_def isinf_def
    facet_truthy_def float_truthy_def round_half_even_def ascii_space_def)

lemma resolve_trail_running:
  "resolveActivityType forest_example ''trail_running'' = Some (Inr Running)"
  by (simp add: resolveActivityType.simps forest_example_def activityMappings_def)

lemma resolve_quidditch:
  "resolveActivityType forest_example ''quidditch''
     = Some (Inl (ValueError ''Activity type not found in activity hierarchy''))"
  by (simp add: resolveActivityType.simps forest_example_def activityMappings_def)

lemma normalize_run_record:
  "\<exists>a. normalize_activity plain_host forest_example run_record = Some (Inr a)
     \<and> UID a = Some ''tMorning run''"
proof -
  from build_run_record obtain b where b: "build_activity plain_host run_record = Inr b"
    "Name b = Some ''Morning run''" "StartTime b = Some 1380000000" by blast
  have k: "activityType_key run_record = ''trail_running''" by (simp add: run_record_def)
  have u: "CalculateUID plain_host x = Inr (x\<lparr>UID := Some ((if StartTime x = None then ''?'' else ''t'')
             @ (case Name x of None \<Rightarrow> [] | Some n \<Rightarrow> n))\<rparr>)" for x
    by (simp add: plain_host_def)
  show ?thesis
    using b by (simp add: normalize_activity_def finish_activity_def k resolve_trail_running u
        and_then_def)
qed

lemma normalize_unknown_type_record:
  "normalize_activity plain_host forest_example unknown_type_record
     = Some (Inl (ValueError ''Activity type not found in activity hierarchy''))"
proof -
  from build_unknown_type_record obtain b
    where b: "build_activity plain_host unknown_type_record = Inr b" by blast
  have k: "activityType_key unknown_type_record = ''quidditch''"
    by (simp add: unknown_type_record_def)
  show ?thesis
    using b by (simp add: normalize_activity_def finish_activity_def k resolve_quidditch)
qed

lemma distance_sel:
  "measures run_record ''sumDistance'' = Some (field 5 ''mile'' ''5.00 mi'')"
  "measures unknown_type_record ''sumDistance'' = Some (field 5 ''mile'' ''5.00 mi'')"
  "measures no_distance_record ''sumDistance'' = None"
  "activityId no_distance_record = 1002"
  by (simp_all add: run_record_def unknown_type_record_def no_distance_record_def)

lemma listing_first_page:
  "listing_loop h hier (activities_get (echo_remote page) c) False 1 acc
     = (case process_page h hier page acc of
          None \<Rightarrow> None
        | Some (Inl e) \<Rightarrow> Some (Inl e)
        | Some (Inr acc') \<Rightarrow> Some (Inr acc'))"
  by (subst listing_loop.simps) (simp add: echo_remote_sel split: option.splits sum.splits)

lemma listing_first_page_Suc:
  "listing_loop h hier (activities_get (echo_remote page) c) False (Suc 0) acc
     = (case process_page h hier page acc of
          None \<Rightarrow> None
        | Some (Inl e) \<Rightarrow> Some (Inl e)
        | Some (Inr acc') \<Rightarrow> Some (Inr acc'))"
  using listing_first_page [of h hier page c acc] by simp

text \<open>
  C2 as stated fails. The page holds a record whose type key is in no table and after it
  a record that normalizes; a listing of the second record alone returns. The listing of
  both raises the \<^verbatim>\<open>ValueError\<close> of the first: no exclusion is made and the second
  record is not processed.
\<close>

theorem DownloadActivityList_unresolved_type_aborts:
  "map_option isl (fst (DownloadActivityList plain_host (echo_remote [run_record]) forest_example
       5000 stale_cache service_record False)) = Some False
   \<and> fst (DownloadActivityList plain_host (echo_remote [unknown_type_record, run_record])
       forest_example 5000 stale_cache service_record False)
     = Some (Inl (ValueError ''Activity type not found in activity hierarchy''))"
proof -
  from normalize_run_record obtain a
    where a: "normalize_activity plain_host forest_example run_record = Some (Inr a)" by blast
  have 1: "map_option isl (fst (DownloadActivityList plain_host (echo_remote [run_record])
       forest_example 5000 stale_cache service_record False)) = Some False"
    by (simp add: DownloadActivityList_def login_echo_remote listing_first_page_Suc distance_sel a)
  have 2: "fst (DownloadActivityList plain_host (echo_remote [unknown_type_record, run_record])
       forest_example 5000 stale_cache service_record False)
     = Some (Inl (ValueError ''Activity type not found in activity hierarchy''))"
    by (simp add: DownloadActivityList_def login_echo_remote listing_first_page_Suc distance_sel
        normalize_unknown_type_record)
  from 1 2 show ?thesis by simp
qed

text \<open>
  C2 (as amended). A record without \<^verbatim>\<open>sumDistance\<close> yields only an exclusion entry and
  every other record of the page is still processed: a page that returns gives one
  exclusion for each such record and the normalized activity of each other record, both in
  the order of the page, and a page returns whenever each record that has a distance
  normalizes. A record that has a distance and whose normalization raises (a type key that
  cannot be resolved, for one) makes the page return no lists.
\<close>

theorem process_page_independent_exclusions:
  "(process_page h hier acts (A, E) = Some (Inr (A', E')) \<longrightarrow>
      E' = E @ map (\<lambda>act. APIExcludeActivity ''No distance'' (Some (activityId act)))
                 (filter (\<lambda>act. measures act ''sumDistance'' = None) acts)
      \<and> (\<exists>new. A' = A @ new
           \<and> list_all2 (\<lambda>act a. normalize_activity h hier act = Some (Inr a))
                (filter (\<lambda>act. measures act ''sumDistance'' \<noteq> None) acts) new))
   \<and> ((\<forall>act \<in> set acts. measures act ''sumDistance'' \<noteq> None \<longrightarrow>
          (\<exists>a. normalize_activity h hier act = Some (Inr a))) \<longrightarrow>
       (\<exists>A' E'. process_page h hier acts (A, E) = Some (Inr (A', E'))))
   \<and> (bad \<in> set acts \<and> measures bad ''sumDistance'' \<noteq> None
        \<and> normalize_activity h hier bad = Some (Inl e) \<longrightarrow>
       (\<forall>r. process_page h hier acts (A, E) \<noteq> Some (Inr r)))"
  using process_page_success [of h hier acts A E A' E']
    process_page_all_normalize [of acts h hier A E]
    process_page_abort [of bad acts h hier e A E]
  by blast

theorem process_page_independent_exclusions_witness:
  "(\<exists>a. process_page plain_host forest_example [no_distance_record, run_record] ([], [])
          = Some (Inr ([a], [APIExcludeActivity ''No distance'' (Some 1002)]))
        \<and> normalize_activity plain_host forest_example run_record = Some (Inr a))
   \<and> unknown_type_record \<in> set [no_distance_record, unknown_type_record, run_record]
   \<and> measures unknown_type_record ''sumDistance'' \<noteq> None
   \<and> normalize_activity plain_host forest_example unknown_type_record
       = Some (Inl (ValueError ''Activity type not found in activity hierarchy''))
   \<and> (\<forall>r. process_page plain_host forest_example
             [no_distance_record, unknown_type_record, run_record] ([], []) \<noteq> Some (Inr r))"
proof -
  from normalize_run_record obtain a
    where a: "normalize_activity plain_host forest_example run_record = Some (Inr a)" by blast
  have all: "\<forall>act \<in> set [no_distance_record, run_record]. measures act ''sumDistance'' \<noteq> None \<longrightarrow>
          (\<exists>a. normalize_activity plain_host forest_example act = Some (Inr a))"
    using a by (simp add: distance_sel)
  from process_page_independent_exclusions
    [of plain_host forest_example "[no_distance_record, run_record]" "[]" "[]"] all
  obtain A' E' where run: "process_page plain_host forest_example [no_distance_record, run_record]
      ([], []) = Some (Inr (A', E'))"
    by blast
  from process_page_independent_exclusions
    [of plain_host forest_example "[no_distance_record, run_record]" "[]" "[]" A' E'] run
  have E': "E' = [APIExcludeActivity ''No distance'' (Some 1002)]"
    and "\<exists>new. A' = new \<and> list_all2 (\<lambda>act a. normalize_activity plain_host forest_example act = Some (Inr a))
           [run_record] new"
    by (simp_all add: distance_sel)
  then have A': "A' = [a]" using a by (auto simp: list_all2_Cons1)
  have mem: "unknown_type_record \<in> set [no_distance_record, unknown_type_record, run_record]"
    by simp
  have dist: "measures unknown_type_record ''sumDistance'' \<noteq> None"
    by (simp add: distance_sel)
  from process_page_independent_exclusions
    [of plain_host forest_example "[no_distance_record, unknown_type_record, run_record]" "[]" "[]"
      _ _ unknown_type_record]
    mem dist normalize_unknown_type_record
  have abort: "\<forall>r. process_page plain_host forest_example
             [no_distance_record, unknown_type_record, run_record] ([], []) \<noteq> Some (Inr r)"
    by blast
  from run A' E' a mem dist normalize_unknown_type_record abort show ?thesis by blast
qed

section \<open>Listing: UIDs\<close>

lemma process_page_normalized:
  assumes "process_page h hier acts (A, E) = Some (Inr (A', E'))"
    and "\<forall>a \<in> set A. \<exists>act. normalize_activity h hier act = Some (Inr a)"
  shows "\<forall>a \<in> set A'. \<exists>act. normalize_activity h hier act = Some (Inr a)"
proof -
  from process_page_success [OF assms(1)] obtain new
    where new: "A' = A @ new"
      "list_all2 (\<lambda>act a. normalize_activity h hier act = Some (Inr a))
         (filter (\<lambda>act. measures act ''sumDistance'' \<noteq> None) acts) new"
    by blast
  have "\<exists>act. normalize_activity h hier act = Some (Inr a)" if "a \<in> set new" for a
    using that new(2) by (auto simp: list_all2_conv_all_nth in_set_conv_nth)
  with assms(2) new(1) show ?thesis by auto
qed

lemma listing_loop_normalized:
  assumes "listing_loop h hier fetch exhaustive page acc = Some y"
  shows "\<forall>A E A' E'. acc = (A, E) \<longrightarrow> y = Inr (A', E') \<longrightarrow>
           (\<forall>a \<in> set A. \<exists>act. normalize_activity h hier act = Some (Inr a)) \<longrightarrow>
           (\<forall>a \<in> set A'. \<exists>act. normalize_activity h hier act = Some (Inr a))"
proof (rule listing_loop.raw_induct
    [where P = "\<lambda>h hier fetch exhaustive page acc y.
        \<forall>A E A' E'. acc = (A, E) \<longrightarrow> y = Inr (A', E') \<longrightarrow>
           (\<forall>a \<in> set A. \<exists>act. normalize_activity h hier act = Some (Inr a)) \<longrightarrow>
           (\<forall>a \<in> set A'. \<exists>act. normalize_activity h hier act = Some (Inr a))",
      OF _ assms])
  fix loop :: "host \<Rightarrow> hentry list \<Rightarrow> (nat \<Rightarrow> nat \<Rightarrow> search_results) \<Rightarrow> bool \<Rightarrow> nat
     \<Rightarrow> Activity list \<times> error list \<Rightarrow> (error + Activity list \<times> error list) option"
  fix h hier fetch exhaustive page acc y
  assume IH: "\<And>h hier fetch exhaustive page acc y.
      loop h hier fetch exhaustive page acc = Some y \<Longrightarrow>
      \<forall>A E A' E'. acc = (A, E) \<longrightarrow> y = Inr (A', E') \<longrightarrow>
           (\<forall>a \<in> set A. \<exists>act. normalize_activity h hier act = Some (Inr a)) \<longrightarrow>
           (\<forall>a \<in> set A'. \<exists>act. normalize_activity h hier act = Some (Inr a))"
  assume body: "(let res = fetch ((page - 1) * 50) 50 in
      case r_activities res of
        None \<Rightarrow> Some (Inr acc)
      | Some acts \<Rightarrow>
          (case process_page h hier acts acc of
             None \<Rightarrow> None
           | Some (Inl e) \<Rightarrow> Some (Inl e)
           | Some (Inr acc') \<Rightarrow>
               if \<not> exhaustive \<or> r_totalPages res = int page then Some (Inr acc')
               else loop h hier fetch exhaustive (page + 1) acc')) = Some y"
  show "\<forall>A E A' E'. acc = (A, E) \<longrightarrow> y = Inr (A', E') \<longrightarrow>
           (\<forall>a \<in> set A. \<exists>act. normalize_activity h hier act = Some (Inr a)) \<longrightarrow>
           (\<forall>a \<in> set A'. \<exists>act. normalize_activity h hier act = Some (Inr a))"
  proof (intro allI impI)
    fix A E A' E'
    assume acc: "acc = (A, E)" and y: "y = Inr (A', E')"
      and inv: "\<forall>a \<in> set A. \<exists>act. normalize_activity h hier act = Some (Inr a)"
    show "\<forall>a \<in> set A'. \<exists>act. normalize_activity h hier act = Some (Inr a)"
    proof (cases "r_activities (fetch ((page - 1) * 50) 50)")
      case None
      with body acc y inv show ?thesis by (simp add: Let_def)
    next
      case (Some acts)
      with body y obtain A1 E1
        where page: "process_page h hier acts acc = Some (Inr (A1, E1))"
          and rest: "(if \<not> exhaustive \<or> r_totalPages (fetch ((page - 1) * 50) 50) = int page
                      then Some (Inr (A1, E1))
                      else loop h hier fetch exhaustive (page + 1) (A1, E1)) = Some (Inr (A', E'))"
        by (auto simp: Let_def split: option.splits sum.splits)
      from process_page_normalized [OF page [unfolded acc] inv]
      have inv1: "\<forall>a \<in> set A1. \<exists>act. normalize_activity h hier act = Some (Inr a)" .
      show ?thesis
      proof (cases "\<not> exhaustive \<or> r_totalPages (fetch ((page - 1) * 50) 50) = int page")
        case True
        with rest inv1 show ?thesis by simp
      next
        case False
        with rest have "loop h hier fetch exhaustive (page + 1) (A1, E1) = Some (Inr (A', E'))"
          by simp
        from IH [OF this] inv1 show ?thesis by blast
      qed
    qed
  qed
qed

lemma normalize_activity_UID:
  assumes "normalize_activity h hier act = Some (Inr a)"
  shows "\<exists>b t c. build_activity h act = Inr b
           \<and> resolveActivityType hier (activityType_key act) = Some (Inr t)
           \<and> CalculateUID h (b\<lparr>Type := t\<rparr>) = Inr c
           \<and> a = c\<lparr>ServiceData := Some (activityId act)\<rparr>"
  using assms
  by (auto simp: normalize_activity_def finish_activity_def and_then_def
      split: sum.splits option.splits)

text \<open>
  C8. Two runs of \<^verbatim>\<open>DownloadActivityList\<close> that are given the same raw listing pages
  and both return - whatever the clock, the session cache, the account and the login
  cookies of each - return the same activities, so the same UIDs in the same order. The UID
  of every activity returned is the one the host's \<^verbatim>\<open>CalculateUID\<close> computed from the
  record of one raw activity as line 230 finds it, with its type resolved.
\<close>

theorem DownloadActivityList_UIDs_deterministic:
  assumes "DownloadActivityList h rem1 hier now1 cache1 sr1 exhaustive = (Some (Inr (A1, E1)), c1)"
    and "DownloadActivityList h rem2 hier now2 cache2 sr2 exhaustive = (Some (Inr (A2, E2)), c2)"
    and "\<forall>k1 k2 start limit.
           activities_get rem1 k1 start limit = activities_get rem2 k2 start limit"
  shows "map UID A1 = map UID A2
       \<and> (\<forall>a \<in> set A1. \<exists>act b t c.
             build_activity h act = Inr b
           \<and> resolveActivityType hier (activityType_key act) = Some (Inr t)
           \<and> CalculateUID h (b\<lparr>Type := t\<rparr>) = Inr c
           \<and> UID a = UID c)"
proof -
  from assms(1) obtain k1
    where l1: "listing_loop h hier (activities_get rem1 k1) exhaustive 1 ([], []) = Some (Inr (A1, E1))"
    by (auto simp: DownloadActivityList_def split: prod.splits sum.splits)
  from assms(2) obtain k2
    where l2: "listing_loop h hier (activities_get rem2 k2) exhaustive 1 ([], []) = Some (Inr (A2, E2))"
    by (auto simp: DownloadActivityList_def split: prod.splits sum.splits)
  from assms(3) have "activities_get rem1 k1 = activities_get rem2 k2"
    by (intro ext) simp
  with l1 l2 have same: "A1 = A2" by simp
  from listing_loop_normalized [OF l1]
  have "\<forall>a \<in> set A1. \<exists>act. normalize_activity h hier act = Some (Inr a)" by simp
  then have "\<forall>a \<in> set A1. \<exists>act b t c.
             build_activity h act = Inr b
           \<and> resolveActivityType hier (activityType_key act) = Some (Inr t)
           \<and> CalculateUID h (b\<lparr>Type := t\<rparr>) = Inr c
           \<and> UID a = UID c"
    by (fastforce dest: normalize_activity_UID)
  with same show ?thesis by simp
qed

lemma listing_example:
  "\<exists>a. listing_loop plain_host forest_example
          (activities_get (echo_remote [no_distance_record, run_record]) k) False 1 ([], [])
        = Some (Inr ([a], [APIExcludeActivity ''No distance'' (Some 1002)]))
      \<and> UID a = Some ''tMorning run''"
proof -
  from normalize_run_record obtain a
    where a: "normalize_activity plain_host forest_example run_record = Some (Inr a)"
      "UID a = Some ''tMorning run''" by blast
  then show ?thesis
    by (simp add: listing_first_page_Suc distance_sel)
qed

theorem DownloadActivityList_UIDs_deterministic_witness:
  "(\<forall>k1 k2 start limit.
      activities_get (echo_remote [no_distance_record, run_record]) k1 start limit
        = activities_get (echo_remote [no_distance_record, run_record]) k2 start limit)
   \<and> cache_Set 5000 stale_cache ''user1'' [(''JSESSIONID'', ''A1'')]
       \<noteq> cache_Set 0 Map.empty ''user9'' [(''JSESSIONID'', ''A1'')]
   \<and> (\<exists>a.
        DownloadActivityList plain_host (echo_remote [no_distance_record, run_record])
          forest_example 5000 stale_cache service_record False
          = (Some (Inr ([a], [APIExcludeActivity ''No distance'' (Some 1002)])),
             cache_Set 5000 stale_cache ''user1'' [(''JSESSIONID'', ''A1'')])
      \<and> DownloadActivityList plain_host (echo_remote [no_distance_record, run_record])
          forest_example 0 Map.empty (service_record\<lparr>ExternalID := ''user9''\<rparr>) False
          = (Some (Inr ([a], [APIExcludeActivity ''No distance'' (Some 1002)])),
             cache_Set 0 Map.empty ''user9'' [(''JSESSIONID'', ''A1'')])
      \<and> map UID [a] = [Some ''tMorning run''])"
proof -
  let ?rem = "echo_remote [no_distance_record, run_record]"
  let ?sr2 = "service_record\<lparr>ExternalID := ''user9''\<rparr>"
  from listing_example [of "[(''JSESSIONID'', ''A1'')]"] obtain a
    where a: "listing_loop plain_host forest_example
          (activities_get ?rem [(''JSESSIONID'', ''A1'')]) False 1 ([], [])
        = Some (Inr ([a], [APIExcludeActivity ''No distance'' (Some 1002)]))"
      and u: "UID a = Some ''tMorning run''" by blast
  have miss2: "cache_Get 0 Map.empty (ExternalID ?sr2) = (None, Map.empty)"
    by (simp add: cache_Get_def)
  have login2: "get_cookies plain_host ?rem 0 Map.empty (Some ?sr2) None None
      = (Inr [(''JSESSIONID'', ''A1'')], cache_Set 0 Map.empty ''user9'' [(''JSESSIONID'', ''A1'')])"
    using login_accepted [OF miss2, of ?rem plain_host] by (simp add: echo_remote_sel)
  have r1: "DownloadActivityList plain_host ?rem forest_example 5000 stale_cache service_record False
      = (Some (Inr ([a], [APIExcludeActivity ''No distance'' (Some 1002)])),
         cache_Set 5000 stale_cache ''user1'' [(''JSESSIONID'', ''A1'')])"
    using a by (simp add: DownloadActivityList_def login_echo_remote)
  have r2: "DownloadActivityList plain_host ?rem forest_example 0 Map.empty ?sr2 False
      = (Some (Inr ([a], [APIExcludeActivity ''No distance'' (Some 1002)])),
         cache_Set 0 Map.empty ''user9'' [(''JSESSIONID'', ''A1'')])"
    using a by (simp add: DownloadActivityList_def login2)
  have same: "\<forall>k1 k2 start limit.
      activities_get ?rem k1 start limit = activities_get ?rem k2 start limit"
    by (simp add: echo_remote_sel)
  have differ: "cache_Set 5000 stale_cache ''user1'' [(''JSESSIONID'', ''A1'')]
      \<noteq> cache_Set 0 Map.empty ''user9'' [(''JSESSIONID'', ''A1'')]"
  proof
    assume "cache_Set 5000 stale_cache ''user1'' [(''JSESSIONID'', ''A1'')]
      = cache_Set 0 Map.empty ''user9'' [(''JSESSIONID'', ''A1'')]"
    then have "cache_Set 5000 stale_cache ''user1'' [(''JSESSIONID'', ''A1'')] ''user1''
      = cache_Set 0 Map.empty ''user9'' [(''JSESSIONID'', ''A1'')] ''user1''" by simp
    then show False by (simp add: cache_Set_def)
  qed
  from DownloadActivityList_UIDs_deterministic [OF r1 r2 same] u
  have "map UID [a] = [Some ''tMorning run'']" by simp
  with r1 r2 have "\<exists>a.
        DownloadActivityList plain_host ?rem forest_example 5000 stale_cache service_record False
          = (Some (Inr ([a], [APIExcludeActivity ''No distance'' (Some 1002)])),
             cache_Set 5000 stale_cache ''user1'' [(''JSESSIONID'', ''A1'')])
      \<and> DownloadActivityList plain_host ?rem forest_example 0 Map.empty ?sr2 False
          = (Some (Inr ([a], [APIExcludeActivity ''No distance'' (Some 1002)])),
             cache_Set 0 Map.empty ''user9'' [(''JSESSIONID'', ''A1'')])
      \<and> map UID [a] = [Some ''tMorning run'']"
    by (intro exI [of _ a] conjI)
  with same differ show ?thesis by (intro conjI)
qed

end
